theory Spec2Isabelle
  imports Main "HOL-Library.Word" "HOL-Library.Sublist"
begin

section \<open>The inbox reader of arbnode (inbox_reader.go)\<close>

text \<open>
  A shallow embedding of \<^verbatim>\<open>src/arbnode/inbox_reader.go\<close>. The reader drives
  collaborators that live in other files (the inbox tracker, the delayed bridge, the
  sequencer inbox, the header reader): they are parameters of the model, a record of
  functions over an abstract outside world \<open>'w\<close>. Every call takes the world and
  returns its result with the world afterwards, so a collaborator may answer differently
  each time it is asked and may be changed by other threads between two calls.
  Logging (\<^verbatim>\<open>log.Warn\<close>, \<^verbatim>\<open>log.Info\<close>, \<^verbatim>\<open>log.Trace\<close>) has no effect on the
  reader and is left out.
\<close>

subsection \<open>Data\<close>

type_synonym u64 = "64 word"
type_synonym hash = "256 word"

text \<open>
  Go errors. \<^verbatim>\<open>accumulatorNotFound\<close> and \<^verbatim>\<open>delayedMessagesMismatch\<close> are the
  package's sentinel values (declared beside the tracker), \<^verbatim>\<open>errors.New\<close> and
  \<^verbatim>\<open>fmt.Errorf\<close> carry their message, and an error may wrap another one;
  \<^verbatim>\<open>errors.Is\<close> walks the chain of wrapped errors.
\<close>

datatype error =
    accumulatorNotFound
  | delayedMessagesMismatch
  | errors_New string
  | fmt_Errorf string
  | Wrapped string error

fun errors_Is :: "error \<Rightarrow> error \<Rightarrow> bool" where
  "errors_Is (Wrapped m e) target = (Wrapped m e = target \<or> errors_Is e target)"
| "errors_Is e target = (e = target)"

text \<open>\<^verbatim>\<open>InboxReaderConfig\<close>; \<^verbatim>\<open>CheckDelay\<close> is a duration, kept in nanoseconds.\<close>

record InboxReaderConfig =
  DelayBlocks :: u64
  CheckDelay :: int
  HardReorg :: bool
  MinBlocksToRead :: u64

text \<open>
  The parts of the message types this file reads. \<^verbatim>\<open>Header.SeqNum()\<close> and
  \<^verbatim>\<open>ParseInitMessage()\<close> are methods that read the message only; the record holds
  what they return.
\<close>

record L1IncomingMessage =
  Header_BlockNumber :: u64
  Header_SeqNum :: "error + u64"
  ParseInitMessage :: "error + int"

record DelayedInboxMessage =
  BeforeInboxAcc :: hash
  Message :: L1IncomingMessage

record SequencerInboxBatch =
  SequenceNumber :: u64
  batch_BeforeInboxAcc :: hash

record BatchMetadata =
  L1Block :: u64

record Header =
  Number :: int

text \<open>What the \<^verbatim>\<open>select\<close> of the WaitForHeight loop receives.\<close>

datatype select_case =
    newHeaders "Header option"
  | ctx_Done
  | checkDelayTimer

text \<open>
  The calls the reader makes on the tracker and on the two parent-chain adapters, and
  its writes to the counters other threads read, in the order they happen. A range query,
  the batch-count query of the sequencer inbox and the two additions to the tracker are
  recorded with what they returned.
\<close>

datatype event =
    Ev_tracker_GetBatchCount
  | Ev_tracker_GetBatchAcc u64
  | Ev_tracker_GetBatchMetadata u64
  | Ev_tracker_ReorgBatchesTo u64
  | Ev_tracker_AddSequencerBatches "SequencerInboxBatch list" "error option"
  | Ev_tracker_GetDelayedCount
  | Ev_tracker_GetDelayedAcc u64
  | Ev_tracker_GetDelayedMessage u64
  | Ev_tracker_ReorgDelayedTo u64
  | Ev_tracker_AddDelayedMessages "DelayedInboxMessage list" "error option"
  | Ev_delayedBridge_GetMessageCount int
  | Ev_delayedBridge_GetAccumulator u64 int
  | Ev_delayedBridge_LookupMessagesInRange int int "error + DelayedInboxMessage list"
  | Ev_sequencerInbox_GetBatchCount int "error + u64"
  | Ev_sequencerInbox_GetAccumulator u64 int
  | Ev_sequencerInbox_LookupBatchesInRange int int "error + SequencerInboxBatch list"
  | Ev_store_lastRead u64 u64
  | Ev_store_lastSeenBatchCount u64
  | Ev_send_caughtUp

subsection \<open>The collaborators\<close>

record 'w deps =
  tracker_GetBatchCount :: "'w \<Rightarrow> (error + u64) \<times> 'w"
  tracker_GetBatchAcc :: "u64 \<Rightarrow> 'w \<Rightarrow> (error + hash) \<times> 'w"
  tracker_GetBatchMetadata :: "u64 \<Rightarrow> 'w \<Rightarrow> (error + BatchMetadata) \<times> 'w"
  tracker_ReorgBatchesTo :: "u64 \<Rightarrow> 'w \<Rightarrow> error option \<times> 'w"
  tracker_AddSequencerBatches :: "SequencerInboxBatch list \<Rightarrow> 'w \<Rightarrow> error option \<times> 'w"
  tracker_GetDelayedCount :: "'w \<Rightarrow> (error + u64) \<times> 'w"
  tracker_GetDelayedAcc :: "u64 \<Rightarrow> 'w \<Rightarrow> (error + hash) \<times> 'w"
  tracker_GetDelayedMessage :: "u64 \<Rightarrow> 'w \<Rightarrow> (error + L1IncomingMessage) \<times> 'w"
  tracker_ReorgDelayedTo :: "u64 \<Rightarrow> 'w \<Rightarrow> error option \<times> 'w"
  tracker_AddDelayedMessages :: "DelayedInboxMessage list \<Rightarrow> 'w \<Rightarrow> error option \<times> 'w"
  tracker_ChainID :: "'w \<Rightarrow> int"
  delayedBridge_GetMessageCount :: "int \<Rightarrow> 'w \<Rightarrow> (error + u64) \<times> 'w"
  delayedBridge_GetAccumulator :: "u64 \<Rightarrow> int \<Rightarrow> 'w \<Rightarrow> (error + hash) \<times> 'w"
  delayedBridge_LookupMessagesInRange ::
    "int \<Rightarrow> int \<Rightarrow> 'w \<Rightarrow> (error + DelayedInboxMessage list) \<times> 'w"
  sequencerInbox_GetBatchCount :: "int \<Rightarrow> 'w \<Rightarrow> (error + u64) \<times> 'w"
  sequencerInbox_GetAccumulator :: "u64 \<Rightarrow> int \<Rightarrow> 'w \<Rightarrow> (error + hash) \<times> 'w"
  sequencerInbox_LookupBatchesInRange ::
    "int \<Rightarrow> int \<Rightarrow> 'w \<Rightarrow> (error + SequencerInboxBatch list) \<times> 'w"
  batch_Serialize :: "SequencerInboxBatch \<Rightarrow> 'w \<Rightarrow> (error + 8 word list) \<times> 'w"
  l1Reader_LastHeader :: "'w \<Rightarrow> (error + Header) \<times> 'w"
  l1Reader_Subscribe :: "'w \<Rightarrow> 'w"
  unsubscribe :: "'w \<Rightarrow> 'w"
  select_WaitForHeight :: "'w \<Rightarrow> select_case \<times> 'w"
  header_Number_Set :: "int \<Rightarrow> 'w \<Rightarrow> 'w"
  ctx_Err :: "'w \<Rightarrow> bool"
  time_Sleep :: "'w \<Rightarrow> 'w"

subsection \<open>The state\<close>

text \<open>
  In \<^verbatim>\<open>run\<close>, \<^verbatim>\<open>from\<close> and \<^verbatim>\<open>currentHeight\<close> are pointers to \<^verbatim>\<open>big.Int\<close>
  objects, and the statement \<^verbatim>\<open>from = currentHeight\<close> makes them one object, which
  \<^verbatim>\<open>from.Add(to, 1)\<close> then overwrites in place. The store of the two objects is
  explicit: \<open>currentHeight\<close> holds the value of the object that variable points to, and
  \<open>from_ptr\<close> says whether \<^verbatim>\<open>from\<close> points to an object of its own or to that one.
\<close>

datatype from_ref = Own int | SameAsCurrentHeight

record 'w state =
  world :: 'w
  trace :: "event list"
  caughtUp :: bool
  caughtUpChan :: "bool list"
  lastSeenBatchCount :: u64
  lastReadBlock :: u64
  lastReadBatchCount :: u64
  from_ptr :: from_ref
  currentHeight :: int
  currentHeightIsHeaderNumber :: bool
  seenBatchCount :: u64
  seenBatchCountStored :: u64
  reorgingDelayed :: bool
  reorgingSequencer :: bool
  missingDelayed :: bool
  missingSequencer :: bool
  checkingBatchCount :: u64
  readAnyBatches :: bool

text \<open>
  The first seven fields are the world, the record of events, and the fields of
  \<^verbatim>\<open>InboxReader\<close> that change: \<open>caughtUpChan\<close> is the list of values sent on the
  channel so far. The other fields are the local variables of \<^verbatim>\<open>run\<close>.
  \<^verbatim>\<open>firstMessageBlock\<close> and \<^verbatim>\<open>config\<close> never change after construction and are
  parameters of the functions.
\<close>

text \<open>One call of a collaborator: the world moves on and the call is recorded.\<close>

definition call_result ::
  "('a \<Rightarrow> event) \<Rightarrow> ('w \<Rightarrow> 'a \<times> 'w) \<Rightarrow> 'w state \<Rightarrow> 'a \<times> 'w state" where
  "call_result ev f s =
     (case f (world s) of (r, w) \<Rightarrow> (r, s\<lparr>world := w, trace := trace s @ [ev r]\<rparr>))"

definition call :: "event \<Rightarrow> ('w \<Rightarrow> 'a \<times> 'w) \<Rightarrow> 'w state \<Rightarrow> 'a \<times> 'w state" where
  "call ev f s = call_result (\<lambda>r. ev) f s"

text \<open>
  \<^verbatim>\<open>(*big.Int).Uint64\<close>: the low 64 bits of the absolute value (the documentation
  leaves the result undefined when the value does not fit).
\<close>

definition big_Uint64 :: "int \<Rightarrow> u64" where
  "big_Uint64 x = word_of_int \<bar>x\<bar>"

subsection \<open>getPrevBlockForReorg and getNextBlockToRead\<close>

definition getPrevBlockForReorg :: "int \<Rightarrow> int \<Rightarrow> error + int" where
  "getPrevBlockForReorg firstMessageBlock from =
     (if from \<le> firstMessageBlock then Inl (errors_New ''can't get older messages'')
      else let newFrom = from - 10
           in Inr (if newFrom < firstMessageBlock then firstMessageBlock else newFrom))"

definition getNextBlockToRead :: "'w deps \<Rightarrow> int \<Rightarrow> 'w state \<Rightarrow> (error + int) \<times> 'w state" where
  "getNextBlockToRead d firstMessageBlock s =
     (case call Ev_tracker_GetDelayedCount (tracker_GetDelayedCount d) s of
        (Inl err, s1) \<Rightarrow> (Inl err, s1)
      | (Inr delayedCount, s1) \<Rightarrow>
          if delayedCount = 0 then (Inr firstMessageBlock, s1)
          else
            (case call (Ev_tracker_GetDelayedMessage (delayedCount - 1))
                    (tracker_GetDelayedMessage d (delayedCount - 1)) s1 of
               (Inl err, s2) \<Rightarrow> (Inl err, s2)
             | (Inr msg, s2) \<Rightarrow>
                 let msgBlock = uint (Header_BlockNumber msg)
                 in (Inr (if msgBlock < firstMessageBlock then firstMessageBlock else msgBlock), s2)))"

subsection \<open>GetSequencerMessageBytes\<close>

text \<open>The \<^verbatim>\<open>for ... range seqBatches\<close> loop: the first batch with the number wins.\<close>

fun serialize_first_match ::
  "'w deps \<Rightarrow> u64 \<Rightarrow> SequencerInboxBatch list \<Rightarrow> 'w state \<Rightarrow> (error + 8 word list) \<times> 'w state" where
  "serialize_first_match d seqNum [] s = (Inl (errors_New ''sequencer batch not found''), s)"
| "serialize_first_match d seqNum (batch # rest) s =
     (if SequenceNumber batch = seqNum
      then (case batch_Serialize d batch (world s) of (r, w) \<Rightarrow> (r, s\<lparr>world := w\<rparr>))
      else serialize_first_match d seqNum rest s)"

definition GetSequencerMessageBytes ::
  "'w deps \<Rightarrow> u64 \<Rightarrow> 'w state \<Rightarrow> (error + 8 word list) \<times> 'w state" where
  "GetSequencerMessageBytes d seqNum s =
     (case call (Ev_tracker_GetBatchMetadata seqNum) (tracker_GetBatchMetadata d seqNum) s of
        (Inl err, s1) \<Rightarrow> (Inl err, s1)
      | (Inr metadata, s1) \<Rightarrow>
          let blockNum = uint (L1Block metadata)
          in (case call_result (Ev_sequencerInbox_LookupBatchesInRange blockNum blockNum)
                     (sequencerInbox_LookupBatchesInRange d blockNum blockNum) s1 of
                (Inl err, s2) \<Rightarrow> (Inl err, s2)
              | (Inr seqBatches, s2) \<Rightarrow> serialize_first_match d seqNum seqBatches s2))"

subsection \<open>Start: the bootstrap gate\<close>







subsection \<open>Control flow of run\<close>

text \<open>
  How a block of \<^verbatim>\<open>run\<close> ends: it goes on to the next statement, breaks out of the
  inner loop, returns from \<^verbatim>\<open>run\<close> (with \<^verbatim>\<open>nil\<close> or an error), or the model's
  bound on the number of loop iterations is used up.
\<close>

datatype 'a ctl = Proceed 'a | Break | Return "error option" | OutOfFuel

definition then_do ::
  "('s \<Rightarrow> 'a ctl \<times> 's) \<Rightarrow> ('a \<Rightarrow> 's \<Rightarrow> 'b ctl \<times> 's) \<Rightarrow> 's \<Rightarrow> 'b ctl \<times> 's" where
  "then_do m f s =
     (case m s of
        (Proceed a, s') \<Rightarrow> f a s'
      | (Break, s') \<Rightarrow> (Break, s')
      | (Return e, s') \<Rightarrow> (Return e, s')
      | (OutOfFuel, s') \<Rightarrow> (OutOfFuel, s'))"

text \<open>\<^verbatim>\<open>if err != nil { return err }\<close> after a call.\<close>

definition or_return :: "('s \<Rightarrow> (error + 'a) \<times> 's) \<Rightarrow> 's \<Rightarrow> 'a ctl \<times> 's" where
  "or_return m s =
     (case m s of (Inl err, s') \<Rightarrow> (Return (Some err), s') | (Inr v, s') \<Rightarrow> (Proceed v, s'))"

definition or_return_err :: "('s \<Rightarrow> error option \<times> 's) \<Rightarrow> 's \<Rightarrow> unit ctl \<times> 's" where
  "or_return_err m s =
     (case m s of (Some err, s') \<Rightarrow> (Return (Some err), s') | (None, s') \<Rightarrow> (Proceed (), s'))"

subsection \<open>The shared counters and the two big.Int objects\<close>

text \<open>The closure \<^verbatim>\<open>storeSeenBatchCount\<close> of \<^verbatim>\<open>run\<close> (an atomic store).\<close>

definition storeSeenBatchCount :: "'w state \<Rightarrow> 'w state" where
  "storeSeenBatchCount s =
     (if seenBatchCountStored s \<noteq> seenBatchCount s
      then s\<lparr>lastSeenBatchCount := seenBatchCount s,
             seenBatchCountStored := seenBatchCount s,
             trace := trace s @ [Ev_store_lastSeenBatchCount (seenBatchCount s)]\<rparr>
      else s)"

text \<open>The two assignments made while \<^verbatim>\<open>lastReadMutex\<close> is held: readers see both or none.\<close>

definition store_lastRead :: "u64 \<Rightarrow> u64 \<Rightarrow> 'w state \<Rightarrow> 'w state" where
  "store_lastRead blk cnt s =
     s\<lparr>lastReadBlock := blk, lastReadBatchCount := cnt,
       trace := trace s @ [Ev_store_lastRead blk cnt]\<rparr>"

definition from_val :: "'w state \<Rightarrow> int" where
  "from_val s = (case from_ptr s of Own v \<Rightarrow> v | SameAsCurrentHeight \<Rightarrow> currentHeight s)"

text \<open>
  \<^verbatim>\<open>currentHeight\<close> is made to point to another object (a new one, or the header's
  \<^verbatim>\<open>Number\<close>): \<^verbatim>\<open>from\<close> keeps the object it had.
\<close>

definition currentHeight_assign :: "int \<Rightarrow> bool \<Rightarrow> 'w state \<Rightarrow> 'w state" where
  "currentHeight_assign v isHeaderNumber s =
     s\<lparr>from_ptr := Own (from_val s), currentHeight := v,
       currentHeightIsHeaderNumber := isHeaderNumber\<rparr>"

text \<open>
  \<^verbatim>\<open>from = from.Add(to, big.NewInt(1))\<close> writes the sum into the object \<^verbatim>\<open>from\<close>
  points to. When that is the object of \<^verbatim>\<open>currentHeight\<close>, the height changes with it,
  and when that object is the \<^verbatim>\<open>Number\<close> of the header the header reader handed out,
  the header changes too.
\<close>

definition from_Add :: "'w deps \<Rightarrow> int \<Rightarrow> 'w state \<Rightarrow> 'w state" where
  "from_Add d v s =
     (case from_ptr s of
        Own old \<Rightarrow> s\<lparr>from_ptr := Own v\<rparr>
      | SameAsCurrentHeight \<Rightarrow>
          if currentHeightIsHeaderNumber s
          then s\<lparr>world := header_Number_Set d v (world s), currentHeight := v\<rparr>
          else s\<lparr>currentHeight := v\<rparr>)"

text \<open>A call that is not recorded (header reader, context).\<close>

definition extern :: "('w \<Rightarrow> 'a \<times> 'w) \<Rightarrow> 'w state \<Rightarrow> 'a \<times> 'w state" where
  "extern f s = (case f (world s) of (r, w) \<Rightarrow> (r, s\<lparr>world := w\<rparr>))"

text \<open>
  Modelled from the spec: \<^verbatim>\<open>arbmath.SaturatingUSub\<close> is not among the sources; the
  specification gives the needed height as
  \<^verbatim>\<open>from + delay_blocks + max(min_blocks_to_read, 1) - 1\<close>, a subtraction that stops at 0.
\<close>

definition arbmath_SaturatingUSub :: "u64 \<Rightarrow> u64 \<Rightarrow> u64" where
  "arbmath_SaturatingUSub a b = (if b \<le> a then a - b else 0)"

definition neededBlockAdvance :: "InboxReaderConfig \<Rightarrow> u64" where
  "neededBlockAdvance cfg = DelayBlocks cfg + arbmath_SaturatingUSub (MinBlocksToRead cfg) 1"

definition blocksToFetch :: u64 where
  "blocksToFetch = 100"

subsection \<open>One pass of run: pacing and the divergence probe\<close>

text \<open>
  The loop labelled \<^verbatim>\<open>WaitForHeight\<close>. Nothing in the code bounds the number of
  headers that may arrive below the needed height, so the model counts iterations down
  from \<open>fuel\<close>.
\<close>

fun WaitForHeight :: "'w deps \<Rightarrow> nat \<Rightarrow> int \<Rightarrow> 'w state \<Rightarrow> unit ctl \<times> 'w state" where
  "WaitForHeight d 0 neededBlockHeight s =
     (if currentHeight s < neededBlockHeight then (OutOfFuel, s) else (Proceed (), s))"
| "WaitForHeight d (Suc fuel) neededBlockHeight s =
     (if currentHeight s < neededBlockHeight then
        (case extern (select_WaitForHeight d) s of
           (newHeaders None, s1) \<Rightarrow> (Return None, s1)
         | (newHeaders (Some latestHeader), s1) \<Rightarrow>
             WaitForHeight d fuel neededBlockHeight
               (currentHeight_assign (Number latestHeader) False s1)
         | (ctx_Done, s1) \<Rightarrow> (Return None, s1)
         | (checkDelayTimer, s1) \<Rightarrow> (Proceed (), s1))
      else (Proceed (), s))"

text \<open>Lines 161 to 184: the latest header, then the wait.\<close>

definition pace :: "'w deps \<Rightarrow> InboxReaderConfig \<Rightarrow> nat \<Rightarrow> 'w state \<Rightarrow> unit ctl \<times> 'w state" where
  "pace d cfg fuel =
     then_do (or_return (extern (l1Reader_LastHeader d)))
       (\<lambda>latestHeader s.
          let s1 = currentHeight_assign (Number latestHeader) True s;
              neededBlockHeight = from_val s1 + uint (neededBlockAdvance cfg)
          in WaitForHeight d fuel neededBlockHeight s1)"

text \<open>Lines 186 to 191: the delay window, floored at the first message block.\<close>

definition applyDelayBlocks :: "InboxReaderConfig \<Rightarrow> int \<Rightarrow> int \<Rightarrow> int" where
  "applyDelayBlocks cfg firstMessageBlock height =
     (if DelayBlocks cfg > 0 then
        let h = height - uint (DelayBlocks cfg)
        in if h < firstMessageBlock then firstMessageBlock else h
      else height)"

definition delayWindow :: "InboxReaderConfig \<Rightarrow> int \<Rightarrow> 'w state \<Rightarrow> 'w state" where
  "delayWindow cfg firstMessageBlock s =
     (if DelayBlocks cfg > 0
      then currentHeight_assign (applyDelayBlocks cfg firstMessageBlock (currentHeight s)) False s
      else s)"

text \<open>Lines 193 to 196.\<close>

definition clearFlags :: "'w state \<Rightarrow> 'w state" where
  "clearFlags s =
     s\<lparr>reorgingDelayed := False, reorgingSequencer := False,
       missingDelayed := False, missingSequencer := False\<rparr>"

text \<open>Lines 198 to 231: the delayed messages at the current height against the tracker.\<close>

definition probeDelayed :: "'w deps \<Rightarrow> InboxReaderConfig \<Rightarrow> 'w state \<Rightarrow> unit ctl \<times> 'w state" where
  "probeDelayed d cfg =
     then_do (\<lambda>s. or_return (call (Ev_delayedBridge_GetMessageCount (currentHeight s))
                       (delayedBridge_GetMessageCount d (currentHeight s))) s)
    (\<lambda>checkingDelayedCount.
     then_do (or_return (call Ev_tracker_GetDelayedCount (tracker_GetDelayedCount d)))
    (\<lambda>ourLatestDelayedCount.
     then_do (\<lambda>s.
        if ourLatestDelayedCount < checkingDelayedCount
        then (Proceed ourLatestDelayedCount, s\<lparr>missingDelayed := True\<rparr>)
        else if ourLatestDelayedCount > checkingDelayedCount \<and> HardReorg cfg
        then then_do (or_return_err (call (Ev_tracker_ReorgDelayedTo checkingDelayedCount)
                        (tracker_ReorgDelayedTo d checkingDelayedCount)))
               (\<lambda>u s'. (Proceed checkingDelayedCount, s')) s
        else (Proceed checkingDelayedCount, s))
    (\<lambda>checkingDelayedCount s.
        if checkingDelayedCount > 0 then
          (let checkingDelayedSeqNum = checkingDelayedCount - 1
           in then_do (or_return (call (Ev_delayedBridge_GetAccumulator checkingDelayedSeqNum
                            (currentHeight s))
                         (delayedBridge_GetAccumulator d checkingDelayedSeqNum (currentHeight s))))
             (\<lambda>l1DelayedAcc.
              then_do (or_return (call (Ev_tracker_GetDelayedAcc checkingDelayedSeqNum)
                         (tracker_GetDelayedAcc d checkingDelayedSeqNum)))
             (\<lambda>dbDelayedAcc s'.
                (Proceed (),
                 if dbDelayedAcc \<noteq> l1DelayedAcc then s'\<lparr>reorgingDelayed := True\<rparr> else s'))) s)
        else (Proceed (), s))))"

text \<open>
  Lines 233 to 267: the same for the sequencer batches. A failed count query sets
  \<^verbatim>\<open>seenBatchCount\<close> to 0 before it returns the error.
\<close>

definition probeSequencer :: "'w deps \<Rightarrow> InboxReaderConfig \<Rightarrow> 'w state \<Rightarrow> unit ctl \<times> 'w state" where
  "probeSequencer d cfg =
     then_do (\<lambda>s.
        case call_result (Ev_sequencerInbox_GetBatchCount (currentHeight s))
               (sequencerInbox_GetBatchCount d (currentHeight s)) s of
          (Inl err, s1) \<Rightarrow> (Return (Some err), s1\<lparr>seenBatchCount := 0\<rparr>)
        | (Inr n, s1) \<Rightarrow> (Proceed (), s1\<lparr>seenBatchCount := n, checkingBatchCount := n\<rparr>))
    (\<lambda>u.
     then_do (or_return (call Ev_tracker_GetBatchCount (tracker_GetBatchCount d)))
    (\<lambda>ourLatestBatchCount.
     then_do (\<lambda>s.
        if ourLatestBatchCount < checkingBatchCount s
        then (Proceed (),
              s\<lparr>checkingBatchCount := ourLatestBatchCount, missingSequencer := True\<rparr>)
        else if ourLatestBatchCount > checkingBatchCount s \<and> HardReorg cfg
        then or_return_err (call (Ev_tracker_ReorgBatchesTo (checkingBatchCount s))
                 (tracker_ReorgBatchesTo d (checkingBatchCount s))) s
        else (Proceed (), s))
    (\<lambda>u s.
        if checkingBatchCount s > 0 then
          (let checkingBatchSeqNum = checkingBatchCount s - 1
           in then_do (or_return (call (Ev_sequencerInbox_GetAccumulator checkingBatchSeqNum
                            (currentHeight s))
                         (sequencerInbox_GetAccumulator d checkingBatchSeqNum (currentHeight s))))
             (\<lambda>l1BatchAcc.
              then_do (or_return (call (Ev_tracker_GetBatchAcc checkingBatchSeqNum)
                         (tracker_GetBatchAcc d checkingBatchSeqNum)))
             (\<lambda>dbBatchAcc s'.
                (Proceed (),
                 if dbBatchAcc \<noteq> l1BatchAcc then s'\<lparr>reorgingSequencer := True\<rparr> else s'))) s)
        else (Proceed (), s))))"

text \<open>The condition of line 269.\<close>

definition nothingToDo :: "'w state \<Rightarrow> bool" where
  "nothingToDo s =
     (\<not> missingDelayed s \<and> \<not> reorgingDelayed s \<and> \<not> missingSequencer s \<and> \<not> reorgingSequencer s)"

text \<open>
  Lines 271 to 276 and 413 to 417: the counters are published, the pair behind the
  mutex first, the seen count after it.
\<close>

definition publishHeight :: "'w state \<Rightarrow> 'w state" where
  "publishHeight s =
     storeSeenBatchCount
       (store_lastRead (big_Uint64 (currentHeight s)) (checkingBatchCount s) s)"

definition idlePass :: "'w state \<Rightarrow> 'w state" where
  "idlePass s = publishHeight (s\<lparr>from_ptr := Own (currentHeight s + 1)\<rparr>)"

subsection \<open>One pass of run: the range scan\<close>

text \<open>Lines 287 to 299: a start past the current height.\<close>

definition scanStart :: "'w state \<Rightarrow> unit ctl \<times> 'w state" where
  "scanStart s =
     (if from_val s > currentHeight s then
        (let s1 = s\<lparr>reorgingDelayed := reorgingDelayed s \<or> missingDelayed s,
                    reorgingSequencer := reorgingSequencer s \<or> missingSequencer s\<rparr>
         in if \<not> reorgingDelayed s1 \<and> \<not> reorgingSequencer s1 then (Break, s1)
            else (Proceed (), s1\<lparr>from_ptr := SameAsCurrentHeight\<rparr>))
      else (Proceed (), s))"

text \<open>Lines 300 to 303.\<close>

definition scanTo :: "'w state \<Rightarrow> int" where
  "scanTo s =
     (let to = from_val s + uint blocksToFetch
      in if to > currentHeight s then currentHeight s else to)"

text \<open>Lines 313 to 317.\<close>

definition signalCaughtUp :: "int \<Rightarrow> 'w state \<Rightarrow> 'w state" where
  "signalCaughtUp to s =
     (if \<not> caughtUp s \<and> to = currentHeight s
      then s\<lparr>caughtUp := True, caughtUpChan := caughtUpChan s @ [True],
             trace := trace s @ [Ev_send_caughtUp]\<rparr>
      else s)"

text \<open>Lines 322 to 331: does the first batch chain onto the tracker?\<close>

definition checkFirstBatch ::
  "'w deps \<Rightarrow> SequencerInboxBatch \<Rightarrow> 'w state \<Rightarrow> unit ctl \<times> 'w state" where
  "checkFirstBatch d firstBatch s =
     (if SequenceNumber firstBatch > 0 then
        (case call (Ev_tracker_GetBatchAcc (SequenceNumber firstBatch - 1))
                (tracker_GetBatchAcc d (SequenceNumber firstBatch - 1)) s of
           (Inl err, s1) \<Rightarrow>
             if errors_Is err accumulatorNotFound
             then (Proceed (), s1\<lparr>reorgingSequencer := True\<rparr>)
             else (Return (Some err), s1)
         | (Inr haveAcc, s1) \<Rightarrow>
             (Proceed (),
              if haveAcc \<noteq> batch_BeforeInboxAcc firstBatch
              then s1\<lparr>reorgingSequencer := True\<rparr> else s1))
      else (Proceed (), s))"

text \<open>Lines 334 to 351: batches the tracker already has are dropped from the front.\<close>

fun skipBatches ::
  "'w deps \<Rightarrow> SequencerInboxBatch list \<Rightarrow> 'w state \<Rightarrow> SequencerInboxBatch list ctl \<times> 'w state" where
  "skipBatches d [] s = (Proceed [], s)"
| "skipBatches d (batch # rest) s =
     (case call (Ev_tracker_GetBatchAcc (SequenceNumber batch))
             (tracker_GetBatchAcc d (SequenceNumber batch)) s of
        (Inl err, s1) \<Rightarrow>
          if errors_Is err accumulatorNotFound then (Proceed (batch # rest), s1)
          else (Return (Some err), s1)
      | (Inr haveAcc, s1) \<Rightarrow>
          if haveAcc = batch_BeforeInboxAcc batch then skipBatches d rest s1
          else (Proceed (batch # rest), s1))"

text \<open>Lines 318 to 357; the result is the list of batches that is left.\<close>

definition analyseSequencer ::
  "'w deps \<Rightarrow> int \<Rightarrow> SequencerInboxBatch list \<Rightarrow> 'w state
     \<Rightarrow> SequencerInboxBatch list ctl \<times> 'w state" where
  "analyseSequencer d to sequencerBatches s =
     (case sequencerBatches of
        firstBatch # rest \<Rightarrow>
          then_do (checkFirstBatch d firstBatch)
            (\<lambda>u s'. if \<not> reorgingSequencer s' then skipBatches d sequencerBatches s'
                     else (Proceed sequencerBatches, s'))
            (s\<lparr>missingSequencer := False, reorgingSequencer := False\<rparr>)
      | [] \<Rightarrow>
          (Proceed [],
           if missingSequencer s \<and> to \<ge> currentHeight s
           then s\<lparr>reorgingSequencer := True\<rparr> else s))"

text \<open>Lines 359 to 382.\<close>

definition checkFirstDelayed ::
  "'w deps \<Rightarrow> DelayedInboxMessage \<Rightarrow> 'w state \<Rightarrow> unit ctl \<times> 'w state" where
  "checkFirstDelayed d firstMsg s =
     (let beforeAcc = BeforeInboxAcc firstMsg
      in case Header_SeqNum (Message firstMsg) of
           Inl err \<Rightarrow> (Return (Some err), s)
         | Inr beforeCount \<Rightarrow>
             if beforeCount > 0 then
               (case call (Ev_tracker_GetDelayedAcc (beforeCount - 1))
                       (tracker_GetDelayedAcc d (beforeCount - 1)) s of
                  (Inl err, s1) \<Rightarrow>
                    if errors_Is err accumulatorNotFound
                    then (Proceed (), s1\<lparr>reorgingDelayed := True\<rparr>)
                    else (Return (Some err), s1)
                | (Inr haveAcc, s1) \<Rightarrow>
                    (Proceed (),
                     if haveAcc \<noteq> beforeAcc then s1\<lparr>reorgingDelayed := True\<rparr> else s1))
             else (Proceed (), s))"

definition analyseDelayed ::
  "'w deps \<Rightarrow> int \<Rightarrow> DelayedInboxMessage list \<Rightarrow> 'w state \<Rightarrow> unit ctl \<times> 'w state" where
  "analyseDelayed d to delayedMessages s =
     (case delayedMessages of
        firstMsg # rest \<Rightarrow>
          checkFirstDelayed d firstMsg (s\<lparr>missingDelayed := False, reorgingDelayed := False\<rparr>)
      | [] \<Rightarrow>
          (Proceed (),
           if missingDelayed s \<and> to \<ge> currentHeight s
           then s\<lparr>reorgingDelayed := True\<rparr> else s))"

subsection \<open>addMessages and the apply step\<close>

definition addMessages ::
  "'w deps \<Rightarrow> SequencerInboxBatch list \<Rightarrow> DelayedInboxMessage list \<Rightarrow> 'w state
     \<Rightarrow> (error + bool) \<times> 'w state" where
  "addMessages d sequencerBatches delayedMessages s =
     (case call_result (Ev_tracker_AddDelayedMessages delayedMessages)
             (tracker_AddDelayedMessages d delayedMessages) s of
        (Some err, s1) \<Rightarrow> (Inl err, s1)
      | (None, s1) \<Rightarrow>
          (case call_result (Ev_tracker_AddSequencerBatches sequencerBatches)
                  (tracker_AddSequencerBatches d sequencerBatches) s1 of
             (Some err, s2) \<Rightarrow>
               if errors_Is err delayedMessagesMismatch then (Inr True, s2) else (Inl err, s2)
           | (None, s2) \<Rightarrow> (Inr False, s2)))"

text \<open>Lines 385 to 401.\<close>

definition applyBundle ::
  "'w deps \<Rightarrow> int \<Rightarrow> SequencerInboxBatch list \<Rightarrow> DelayedInboxMessage list \<Rightarrow> 'w state
     \<Rightarrow> unit ctl \<times> 'w state" where
  "applyBundle d to sequencerBatches delayedMessages s =
     (if \<not> reorgingDelayed s \<and> \<not> reorgingSequencer s
         \<and> (delayedMessages \<noteq> [] \<or> sequencerBatches \<noteq> [])
      then
        then_do (or_return (addMessages d sequencerBatches delayedMessages))
          (\<lambda>delayedMismatch s1.
             let s2 = (if delayedMismatch then s1\<lparr>reorgingDelayed := True\<rparr> else s1)
             in (Proceed (),
                 if sequencerBatches \<noteq> [] then
                   storeSeenBatchCount
                     (store_lastRead (big_Uint64 to)
                        (SequenceNumber (last sequencerBatches) + 1)
                        (s2\<lparr>readAnyBatches := True\<rparr>))
                 else s2)) s
      else (Proceed (), s))"

text \<open>Lines 402 to 409.\<close>

definition advance :: "'w deps \<Rightarrow> int \<Rightarrow> int \<Rightarrow> 'w state \<Rightarrow> unit ctl \<times> 'w state" where
  "advance d firstMessageBlock to s =
     (if reorgingDelayed s \<or> reorgingSequencer s then
        (case getPrevBlockForReorg firstMessageBlock (from_val s) of
           Inl err \<Rightarrow> (Return (Some err), s)
         | Inr newFrom \<Rightarrow> (Proceed (), s\<lparr>from_ptr := Own newFrom\<rparr>))
      else (Proceed (), from_Add d (to + 1) s))"

text \<open>Lines 300 to 409, once the start of the range is settled.\<close>

definition scanRange :: "'w deps \<Rightarrow> int \<Rightarrow> 'w state \<Rightarrow> unit ctl \<times> 'w state" where
  "scanRange d firstMessageBlock s =
     (let from = from_val s; to = scanTo s
      in then_do (or_return (call_result (Ev_delayedBridge_LookupMessagesInRange from to)
                    (delayedBridge_LookupMessagesInRange d from to)))
        (\<lambda>delayedMessages.
         then_do (or_return (call_result (Ev_sequencerInbox_LookupBatchesInRange from to)
                    (sequencerInbox_LookupBatchesInRange d from to)))
        (\<lambda>sequencerBatches.
         then_do (\<lambda>s'. analyseSequencer d to sequencerBatches (signalCaughtUp to s'))
        (\<lambda>sequencerBatches'.
         then_do (analyseDelayed d to delayedMessages)
        (\<lambda>u.
         then_do (applyBundle d to sequencerBatches' delayedMessages)
        (\<lambda>u. advance d firstMessageBlock to))))) s)"

text \<open>One iteration of the inner loop, lines 282 to 409.\<close>

definition scanIteration :: "'w deps \<Rightarrow> int \<Rightarrow> 'w state \<Rightarrow> unit ctl \<times> 'w state" where
  "scanIteration d firstMessageBlock s =
     (if ctx_Err d (world s) then (Return None, s)
      else then_do scanStart (\<lambda>u. scanRange d firstMessageBlock) s)"

text \<open>
  The inner loop. A reorg can send it back and new messages forward without end, so the
  model counts its iterations down from \<open>fuel\<close>.
\<close>

fun scan :: "'w deps \<Rightarrow> int \<Rightarrow> nat \<Rightarrow> 'w state \<Rightarrow> unit ctl \<times> 'w state" where
  "scan d firstMessageBlock 0 s = (OutOfFuel, s)"
| "scan d firstMessageBlock (Suc fuel) s =
     (case scanIteration d firstMessageBlock s of
        (Proceed u, s') \<Rightarrow> scan d firstMessageBlock fuel s'
      | (Break, s') \<Rightarrow> (Proceed (), s')
      | (Return e, s') \<Rightarrow> (Return e, s')
      | (OutOfFuel, s') \<Rightarrow> (OutOfFuel, s'))"

subsection \<open>The pass and run\<close>

text \<open>Lines 280 to 418: the scan and what follows it.\<close>

definition scanPhase :: "'w deps \<Rightarrow> int \<Rightarrow> nat \<Rightarrow> 'w state \<Rightarrow> unit ctl \<times> 'w state" where
  "scanPhase d firstMessageBlock fuel s =
     then_do (scan d firstMessageBlock fuel)
       (\<lambda>u s'. (Proceed (), if \<not> readAnyBatches s' then publishHeight s' else s'))
       (s\<lparr>readAnyBatches := False\<rparr>)"

text \<open>Lines 186 to 267: the delay window and the two probes.\<close>

definition probes ::
  "'w deps \<Rightarrow> InboxReaderConfig \<Rightarrow> int \<Rightarrow> 'w state \<Rightarrow> unit ctl \<times> 'w state" where
  "probes d cfg firstMessageBlock s =
     then_do (probeDelayed d cfg) (\<lambda>u. probeSequencer d cfg)
       (clearFlags (delayWindow cfg firstMessageBlock s))"

text \<open>Lines 186 to 418: the pass once the height is known.\<close>

definition probeAndScan ::
  "'w deps \<Rightarrow> InboxReaderConfig \<Rightarrow> int \<Rightarrow> nat \<Rightarrow> 'w state \<Rightarrow> unit ctl \<times> 'w state" where
  "probeAndScan d cfg firstMessageBlock fuel =
     then_do (probes d cfg firstMessageBlock)
       (\<lambda>u s'. if nothingToDo s' then (Proceed (), idlePass s')
                else scanPhase d firstMessageBlock fuel s')"

text \<open>One iteration of the outer loop, lines 160 to 419.\<close>

definition pass ::
  "'w deps \<Rightarrow> InboxReaderConfig \<Rightarrow> int \<Rightarrow> nat \<Rightarrow> 'w state \<Rightarrow> unit ctl \<times> 'w state" where
  "pass d cfg firstMessageBlock fuel =
     then_do (pace d cfg fuel) (\<lambda>u. probeAndScan d cfg firstMessageBlock fuel)"

text \<open>The outer loop: it ends only by a return, so the model bounds the passes too.\<close>

fun passes ::
  "'w deps \<Rightarrow> InboxReaderConfig \<Rightarrow> int \<Rightarrow> nat \<Rightarrow> nat \<Rightarrow> 'w state \<Rightarrow> unit ctl \<times> 'w state" where
  "passes d cfg firstMessageBlock fuel 0 s = (OutOfFuel, s)"
| "passes d cfg firstMessageBlock fuel (Suc n) s =
     (case pass d cfg firstMessageBlock fuel s of
        (Proceed u, s') \<Rightarrow> passes d cfg firstMessageBlock fuel n s'
      | (Break, s') \<Rightarrow> (Break, s')
      | (Return e, s') \<Rightarrow> (Return e, s')
      | (OutOfFuel, s') \<Rightarrow> (OutOfFuel, s'))"

text \<open>
  The two deferred calls run when \<^verbatim>\<open>run\<close> returns, the later one first:
  \<^verbatim>\<open>storeSeenBatchCount\<close>, then \<^verbatim>\<open>unsubscribe\<close>.
\<close>

definition deferred :: "'w deps \<Rightarrow> 'w state \<Rightarrow> 'w state" where
  "deferred d s = (let s1 = storeSeenBatchCount s in s1\<lparr>world := unsubscribe d (world s1)\<rparr>)"

text \<open>
  \<^verbatim>\<open>run\<close>, with at most \<open>n\<close> passes and \<open>fuel\<close> iterations of each inner loop.
  \<open>- 1\<close> is \<^verbatim>\<open>math.MaxUint64\<close>. The deferred calls run when the function returns;
  a run that is out of fuel has not returned.
\<close>

definition run ::
  "'w deps \<Rightarrow> InboxReaderConfig \<Rightarrow> int \<Rightarrow> nat \<Rightarrow> nat \<Rightarrow> 'w state \<Rightarrow> unit ctl \<times> 'w state" where
  "run d cfg firstMessageBlock fuel n s =
     (case getNextBlockToRead d firstMessageBlock s of
        (Inl err, s1) \<Rightarrow> (Return (Some err), s1)
      | (Inr from, s1) \<Rightarrow>
          (case passes d cfg firstMessageBlock fuel n
                  (s1\<lparr>world := l1Reader_Subscribe d (world s1), from_ptr := Own from,
                      seenBatchCount := 0, seenBatchCountStored := - 1\<rparr>) of
             (Return e, s2) \<Rightarrow> (Return e, deferred d s2)
           | (r, s2) \<Rightarrow> (r, s2)))"

subsection \<open>A concrete world for running the model\<close>

text \<open>
  Collaborators over a world that is a counter of the sleeps so far: an empty tracker,
  an empty parent chain whose latest header is block 20, a context that is never
  cancelled, and a timer that fires at once. The examples below change single fields.
\<close>

definition still :: "nat deps" where
  "still = \<lparr>
     tracker_GetBatchCount = (\<lambda>w. (Inr 0, w)),
     tracker_GetBatchAcc = (\<lambda>n w. (Inr 0, w)),
     tracker_GetBatchMetadata = (\<lambda>n w. (Inr \<lparr>L1Block = 0\<rparr>, w)),
     tracker_ReorgBatchesTo = (\<lambda>n w. (None, w)),
     tracker_AddSequencerBatches = (\<lambda>bs w. (None, w)),
     tracker_GetDelayedCount = (\<lambda>w. (Inr 0, w)),
     tracker_GetDelayedAcc = (\<lambda>n w. (Inr 0, w)),
     tracker_GetDelayedMessage = (\<lambda>n w.
        (Inr \<lparr>Header_BlockNumber = 0, Header_SeqNum = Inr 0, ParseInitMessage = Inr 1\<rparr>, w)),
     tracker_ReorgDelayedTo = (\<lambda>n w. (None, w)),
     tracker_AddDelayedMessages = (\<lambda>ms w. (None, w)),
     tracker_ChainID = (\<lambda>w. 1),
     delayedBridge_GetMessageCount = (\<lambda>h w. (Inr 0, w)),
     delayedBridge_GetAccumulator = (\<lambda>n h w. (Inr 0, w)),
     delayedBridge_LookupMessagesInRange = (\<lambda>f t w. (Inr [], w)),
     sequencerInbox_GetBatchCount = (\<lambda>h w. (Inr 0, w)),
     sequencerInbox_GetAccumulator = (\<lambda>n h w. (Inr 0, w)),
     sequencerInbox_LookupBatchesInRange = (\<lambda>f t w. (Inr [], w)),
     batch_Serialize = (\<lambda>b w. (Inr [], w)),
     l1Reader_LastHeader = (\<lambda>w. (Inr \<lparr>Number = 20\<rparr>, w)),
     l1Reader_Subscribe = (\<lambda>w. w),
     unsubscribe = (\<lambda>w. w),
     select_WaitForHeight = (\<lambda>w. (checkDelayTimer, w)),
     header_Number_Set = (\<lambda>v w. w),
     ctx_Err = (\<lambda>w. False),
     time_Sleep = (\<lambda>w. Suc w)
   \<rparr>"

text \<open>A reader as \<^verbatim>\<open>NewInboxReader\<close> leaves it, before \<^verbatim>\<open>run\<close> has set its locals.\<close>

definition fresh :: "nat state" where
  "fresh = \<lparr> world = 0, trace = [], caughtUp = False, caughtUpChan = [],
     lastSeenBatchCount = 0, lastReadBlock = 0, lastReadBatchCount = 0,
     from_ptr = Own 0, currentHeight = 0, currentHeightIsHeaderNumber = False,
     seenBatchCount = 0, seenBatchCountStored = 0,
     reorgingDelayed = False, reorgingSequencer = False,
     missingDelayed = False, missingSequencer = False,
     checkingBatchCount = 0, readAnyBatches = False \<rparr>"

text \<open>\<^verbatim>\<open>DefaultInboxReaderConfig\<close>: one minute is 60000000000 ns.\<close>

definition DefaultInboxReaderConfig :: InboxReaderConfig where
  "DefaultInboxReaderConfig =
     \<lparr>DelayBlocks = 0, CheckDelay = 60000000000, HardReorg = False, MinBlocksToRead = 1\<rparr>"

text \<open>A tracker whose batches 3 and 4 were posted in parent-chain block 7.\<close>

definition batchesAt7 :: "SequencerInboxBatch list" where
  "batchesAt7 = [\<lparr>SequenceNumber = 3, batch_BeforeInboxAcc = 30\<rparr>,
                 \<lparr>SequenceNumber = 4, batch_BeforeInboxAcc = 40\<rparr>]"

definition archive :: "nat deps" where
  "archive = still\<lparr>
     tracker_GetBatchMetadata := (\<lambda>n w. (Inr \<lparr>L1Block = 7\<rparr>, w)),
     sequencerInbox_LookupBatchesInRange :=
       (\<lambda>f t w. (Inr (if f = 7 \<and> t = 7 then batchesAt7 else []), w)),
     batch_Serialize := (\<lambda>b w. (Inr [word_of_nat (unat (SequenceNumber b))], w))\<rparr>"

text \<open>A first batch and a first delayed message at position 0.\<close>

definition genesisBatch :: SequencerInboxBatch where
  "genesisBatch = \<lparr>SequenceNumber = 0, batch_BeforeInboxAcc = 99\<rparr>"

definition genesisMsg :: DelayedInboxMessage where
  "genesisMsg = \<lparr>BeforeInboxAcc = 99,
     Message = \<lparr>Header_BlockNumber = 12, Header_SeqNum = Inr 0, ParseInitMessage = Inr 1\<rparr>\<rparr>"

text \<open>A tracker that answers the batches with a wrapped delayed-messages mismatch.\<close>

definition needsDelayed :: "nat deps" where
  "needsDelayed = still\<lparr>tracker_AddSequencerBatches :=
     (\<lambda>bs w. (Some (Wrapped ''adding batches'' delayedMessagesMismatch), w))\<rparr>"

subsection \<open>The polls of the bootstrap gate\<close>





subsection \<open>Events and the parent-chain block they refer to\<close>


text \<open>
  The highest parent-chain block a query to the delayed bridge or the sequencer inbox
  refers to: the block of a count or accumulator query, the upper end \<open>to\<close> of a
  range query. \<open>within h e\<close> says that the event \<open>e\<close> refers to no block above \<open>h\<close>.
\<close>

fun event_block :: "event \<Rightarrow> int option" where
  "event_block (Ev_delayedBridge_GetMessageCount h) = Some h"
| "event_block (Ev_delayedBridge_GetAccumulator n h) = Some h"
| "event_block (Ev_delayedBridge_LookupMessagesInRange f t r) = Some t"
| "event_block (Ev_sequencerInbox_GetBatchCount h r) = Some h"
| "event_block (Ev_sequencerInbox_GetAccumulator n h) = Some h"
| "event_block (Ev_sequencerInbox_LookupBatchesInRange f t r) = Some t"
| "event_block e = None"

definition within :: "int \<Rightarrow> event \<Rightarrow> bool" where
  "within h e = (case event_block e of None \<Rightarrow> True | Some b \<Rightarrow> b \<le> h)"

text \<open>
  The events of the divergence probe and of the chaining checks: reads and truncations
  of the tracker, and count and accumulator queries at a block not above \<open>h\<close>.
\<close>

fun probe_event :: "int \<Rightarrow> event \<Rightarrow> bool" where
  "probe_event h Ev_tracker_GetBatchCount = True"
| "probe_event h (Ev_tracker_GetBatchAcc n) = True"
| "probe_event h (Ev_tracker_ReorgBatchesTo n) = True"
| "probe_event h Ev_tracker_GetDelayedCount = True"
| "probe_event h (Ev_tracker_GetDelayedAcc n) = True"
| "probe_event h (Ev_tracker_ReorgDelayedTo n) = True"
| "probe_event h (Ev_delayedBridge_GetMessageCount b) = (b \<le> h)"
| "probe_event h (Ev_delayedBridge_GetAccumulator n b) = (b \<le> h)"
| "probe_event h (Ev_sequencerInbox_GetBatchCount b r) = (b \<le> h)"
| "probe_event h (Ev_sequencerInbox_GetAccumulator n b) = (b \<le> h)"
| "probe_event h e = False"

subsection \<open>What a step leaves unchanged\<close>


text \<open>
  Relations between the state before a step and the state after it, used to follow the
  published counters, the height and the recorded events through \<^verbatim>\<open>run\<close>.
  \<open>quiet\<close>: the step only made probe events. \<open>calm\<close>: it made no event and wrote no
  counter. \<open>unsignalled\<close>: it sent nothing on the caught-up channel.
\<close>

definition quiet :: "'w state \<Rightarrow> 'w state \<Rightarrow> bool" where
  "quiet s s' \<longleftrightarrow>
     currentHeight s' = currentHeight s \<and> from_ptr s' = from_ptr s
     \<and> currentHeightIsHeaderNumber s' = currentHeightIsHeaderNumber s
     \<and> caughtUp s' = caughtUp s \<and> caughtUpChan s' = caughtUpChan s
     \<and> lastSeenBatchCount s' = lastSeenBatchCount s
     \<and> lastReadBlock s' = lastReadBlock s \<and> lastReadBatchCount s' = lastReadBatchCount s
     \<and> seenBatchCountStored s' = seenBatchCountStored s
     \<and> readAnyBatches s' = readAnyBatches s
     \<and> (\<exists>evs. trace s' = trace s @ evs \<and> (\<forall>e \<in> set evs. probe_event (currentHeight s) e))"

definition calm :: "'w state \<Rightarrow> 'w state \<Rightarrow> bool" where
  "calm s s' \<longleftrightarrow>
     trace s' = trace s
     \<and> caughtUp s' = caughtUp s \<and> caughtUpChan s' = caughtUpChan s
     \<and> lastSeenBatchCount s' = lastSeenBatchCount s
     \<and> lastReadBlock s' = lastReadBlock s \<and> lastReadBatchCount s' = lastReadBatchCount s
     \<and> seenBatchCountStored s' = seenBatchCountStored s
     \<and> seenBatchCount s' = seenBatchCount s"


text \<open>
  What \<^verbatim>\<open>storeSeenBatchCount\<close> keeps true within one call of \<^verbatim>\<open>run\<close>: either
  nothing was stored yet (\<^verbatim>\<open>seenBatchCountStored\<close> is still \<^verbatim>\<open>math.MaxUint64\<close>) or
  \<^verbatim>\<open>lastSeenBatchCount\<close> holds the value stored last.
\<close>

definition seen_in_step :: "'w state \<Rightarrow> bool" where
  "seen_in_step s \<longleftrightarrow>
     seenBatchCountStored s = - 1 \<or> lastSeenBatchCount s = seenBatchCountStored s"

definition keeps_seen :: "'w state \<Rightarrow> 'w state \<Rightarrow> bool" where
  "keeps_seen s s' \<longleftrightarrow> (seen_in_step s \<longrightarrow> seen_in_step s')"


text \<open>
  \<open>accepted r\<close>: the answer \<open>r\<close> of \<^verbatim>\<open>AddSequencerBatches\<close> is one after which
  the apply step goes on to its stores: \<^verbatim>\<open>nil\<close>, or an error that is the
  delayed-messages mismatch.
  \<open>orderly\<close>: the pair behind the mutex is unchanged, unless the tracker accepted a
  non-empty list of batches in the step; then \<^verbatim>\<open>lastReadBatchCount\<close> is the number
  after the last batch of such a list.
\<close>

definition accepted :: "error option \<Rightarrow> bool" where
  "accepted r = (case r of None \<Rightarrow> True | Some err \<Rightarrow> errors_Is err delayedMessagesMismatch)"

definition orderly :: "'w state \<Rightarrow> 'w state \<Rightarrow> bool" where
  "orderly s s' \<longleftrightarrow>
     (\<exists>evs. trace s' = trace s @ evs
        \<and> ((lastReadBlock s' = lastReadBlock s \<and> lastReadBatchCount s' = lastReadBatchCount s)
             \<or> (\<exists>bs r. bs \<noteq> [] \<and> accepted r
                   \<and> Ev_tracker_AddSequencerBatches bs r \<in> set evs
                   \<and> lastReadBatchCount s' = SequenceNumber (last bs) + 1)))
     \<and> (seen_in_step s \<longrightarrow> seen_in_step s')"

text \<open>
  \<open>steady\<close>: the height and the pointer \<^verbatim>\<open>from\<close> are unchanged and every event is
  within the height. \<open>bounded\<close>: the height did not go down and every event is within
  the height the step ends with.
\<close>

definition steady :: "'w state \<Rightarrow> 'w state \<Rightarrow> bool" where
  "steady s s' \<longleftrightarrow>
     currentHeight s' = currentHeight s \<and> from_ptr s' = from_ptr s
     \<and> (\<exists>evs. trace s' = trace s @ evs \<and> (\<forall>e \<in> set evs. within (currentHeight s) e))"





subsection \<open>Where the applied lists come from\<close>







definition adds_only ::
  "DelayedInboxMessage list \<Rightarrow> SequencerInboxBatch list \<Rightarrow> 'w state \<Rightarrow> 'w state \<Rightarrow> bool" where
  "adds_only ms all s s' \<longleftrightarrow>
     (\<exists>evs. trace s' = trace s @ evs
        \<and> (\<forall>ms' r. Ev_tracker_AddDelayedMessages ms' r \<in> set evs \<longrightarrow> ms' = ms)
        \<and> (\<forall>bs r. Ev_tracker_AddSequencerBatches bs r \<in> set evs \<longrightarrow>
              (\<exists>skipped. all = skipped @ bs)))"

subsection \<open>The height within a pass\<close>







subsection \<open>What other threads can observe\<close>


text \<open>
  The published triple (\<^verbatim>\<open>lastReadBlock\<close>, \<^verbatim>\<open>lastReadBatchCount\<close>,
  \<^verbatim>\<open>lastSeenBatchCount\<close>) after each recorded event: the pair behind the mutex changes
  in one step, the atomic counter in a step of its own.
\<close>

fun publish :: "u64 \<times> u64 \<times> u64 \<Rightarrow> event \<Rightarrow> u64 \<times> u64 \<times> u64" where
  "publish (blk, cnt, seen) (Ev_store_lastRead blk' cnt') = (blk', cnt', seen)"
| "publish (blk, cnt, seen) (Ev_store_lastSeenBatchCount seen') = (blk, cnt, seen')"
| "publish x e = x"

fun observable :: "u64 \<times> u64 \<times> u64 \<Rightarrow> event list \<Rightarrow> (u64 \<times> u64 \<times> u64) list" where
  "observable x [] = [x]"
| "observable x (e # es) = x # observable (publish x e) es"




text \<open>
  \<open>stored_blocks evs\<close>: the values of \<^verbatim>\<open>lastReadBlock\<close> stored in \<open>evs\<close>, in
  order. \<open>climbing\<close>: beginning with the value before the step, the stored values never
  go down, and \<^verbatim>\<open>lastReadBlock\<close> is the last of them. \<open>inert\<close>: the step stored no
  pair and changed neither the height nor \<^verbatim>\<open>from\<close>. \<open>unstoring\<close>: the step stored
  no pair.
\<close>

fun stored_blocks :: "event list \<Rightarrow> u64 list" where
  "stored_blocks [] = []"
| "stored_blocks (Ev_store_lastRead blk cnt # es) = blk # stored_blocks es"
| "stored_blocks (e # es) = stored_blocks es"


definition inert :: "'w state \<Rightarrow> 'w state \<Rightarrow> bool" where
  "inert s s' \<longleftrightarrow>
     currentHeight s' = currentHeight s \<and> from_ptr s' = from_ptr s
     \<and> lastReadBlock s' = lastReadBlock s
     \<and> (\<exists>evs. trace s' = trace s @ evs \<and> stored_blocks evs = [])"



subsection \<open>Passes that find nothing to do\<close>




subsection \<open>Passes that do not step back\<close>





text \<open>
  A pass with no reorg. \<open>scan_forward\<close>: no iteration of the scan ends with
  \<^verbatim>\<open>reorgingDelayed\<close> or \<^verbatim>\<open>reorgingSequencer\<close> set. \<open>no_reorg\<close>: neither the
  probes of the pass nor an iteration of its scan set one of the two.
  \<open>forward_pass\<close>: a pass with no reorg that begins with \<^verbatim>\<open>from\<close> an object of its
  own, above the published \<^verbatim>\<open>lastReadBlock\<close> and not above the height of the pass (one
  above it at most, when the probes raise no flag). \<open>forward_passes ... n s\<close>: each of
  the next \<open>n\<close> passes from \<open>s\<close> is such a pass.
\<close>

fun scan_forward :: "'w deps \<Rightarrow> int \<Rightarrow> nat \<Rightarrow> 'w state \<Rightarrow> bool" where
  "scan_forward d fmb 0 s = True"
| "scan_forward d fmb (Suc fuel) s =
     (case scanIteration d fmb s of
        (Proceed u, s') \<Rightarrow>
          \<not> reorgingDelayed s' \<and> \<not> reorgingSequencer s' \<and> scan_forward d fmb fuel s'
      | (r, s') \<Rightarrow> True)"

definition no_reorg :: "'w deps \<Rightarrow> InboxReaderConfig \<Rightarrow> int \<Rightarrow> nat \<Rightarrow> 'w state \<Rightarrow> bool" where
  "no_reorg d cfg fmb fuel s =
     (case then_do (pace d cfg fuel) (\<lambda>u. probes d cfg fmb) s of
        (Proceed u, sp) \<Rightarrow>
          \<not> reorgingDelayed sp \<and> \<not> reorgingSequencer sp
          \<and> (nothingToDo sp \<or> scan_forward d fmb fuel (sp\<lparr>readAnyBatches := False\<rparr>))
      | (r, sp) \<Rightarrow> True)"



subsection \<open>More concrete worlds\<close>


text \<open>
  The reader as \<^verbatim>\<open>run\<close> has set it up before its first pass, starting at block
  \<open>from\<close>; the same for a reader that had published counters in an earlier call of
  \<^verbatim>\<open>run\<close>.
\<close>

definition started :: "int \<Rightarrow> nat state" where
  "started from = fresh\<lparr>from_ptr := Own from, seenBatchCountStored := - 1\<rparr>"

definition resumed :: "nat state" where
  "resumed = fresh\<lparr>lastSeenBatchCount := 5, lastReadBlock := 20, lastReadBatchCount := 5\<rparr>"

definition resumedAt :: "int \<Rightarrow> nat state" where
  "resumedAt from = resumed\<lparr>from_ptr := Own from, seenBatchCountStored := - 1\<rparr>"



definition noHeader :: "nat deps" where
  "noHeader = still\<lparr>l1Reader_LastHeader := (\<lambda>w. (Inl (errors_New ''header not found''), w))\<rparr>"

definition noBatchCount :: "nat deps" where
  "noBatchCount = still\<lparr>sequencerInbox_GetBatchCount :=
     (\<lambda>h w. (Inl (errors_New ''header not found''), w))\<rparr>"


definition trackerFails :: "nat deps" where
  "trackerFails = still\<lparr>
     sequencerInbox_GetBatchCount := (\<lambda>h w. (Inr 1, w)),
     sequencerInbox_LookupBatchesInRange :=
       (\<lambda>f t w. (Inr (if f \<le> 15 \<and> 15 \<le> t then [genesisBatch] else []), w)),
     tracker_GetBatchAcc := (\<lambda>n w. (Inl accumulatorNotFound, w)),
     tracker_AddSequencerBatches := (\<lambda>bs w. (Some (errors_New ''database closed''), w))\<rparr>"

text \<open>
  A parent chain that holds one batch, at block 10 (latest header \<open>latest\<close>) and at
  block 20 (latest header 20), and a tracker that holds none.
\<close>

definition firstBatchAt10 :: "int \<Rightarrow> nat deps" where
  "firstBatchAt10 latest = still\<lparr>
     l1Reader_LastHeader := (\<lambda>w. (Inr \<lparr>Number = latest\<rparr>, w)),
     sequencerInbox_GetBatchCount := (\<lambda>h w. (Inr 1, w)),
     sequencerInbox_LookupBatchesInRange :=
       (\<lambda>f t w. (Inr (if f \<le> 10 \<and> 10 \<le> t then [genesisBatch] else []), w)),
     tracker_GetBatchAcc := (\<lambda>n w. (Inl accumulatorNotFound, w))\<rparr>"

definition batchAtHead :: "nat deps" where
  "batchAtHead = still\<lparr>
     sequencerInbox_GetBatchCount := (\<lambda>h w. (Inr 1, w)),
     sequencerInbox_LookupBatchesInRange :=
       (\<lambda>f t w. (Inr (if f \<le> 20 \<and> 20 \<le> t then [genesisBatch] else []), w)),
     tracker_GetBatchAcc := (\<lambda>n w. (Inl accumulatorNotFound, w))\<rparr>"


text \<open>
  The parent chain with one batch at block 10 and the latest header at block 20, and a
  tracker that answers the batch with a wrapped delayed-messages mismatch. A tracker whose
  world counts what was added: 1 for the delayed messages, 10 for the batches. A tracker
  that fails when delayed messages are added.
\<close>

definition mismatchAtFloor :: "nat deps" where
  "mismatchAtFloor = (firstBatchAt10 20)\<lparr>tracker_AddSequencerBatches :=
     (\<lambda>bs w. (Some (Wrapped ''adding batches'' delayedMessagesMismatch), w))\<rparr>"

definition counting :: "nat deps" where
  "counting = still\<lparr>
     tracker_AddDelayedMessages := (\<lambda>ms w. (None, w + 1)),
     tracker_AddSequencerBatches := (\<lambda>bs w. (None, w + 10))\<rparr>"

definition delayedFails :: "nat deps" where
  "delayedFails = still\<lparr>
     tracker_AddDelayedMessages := (\<lambda>ms w. (Some (errors_New ''database closed''), w))\<rparr>"


text \<open>
  A parent chain with six batches, the accumulator after batch \<open>n\<close> being
  \<open>101 + n\<close>, and a tracker that holds the first five of them; a reader that had
  published the pair (140, 5) in an earlier call of \<^verbatim>\<open>run\<close>.
\<close>

definition chain6 :: "(int \<times> SequencerInboxBatch) list" where
  "chain6 = [(10, \<lparr>SequenceNumber = 0, batch_BeforeInboxAcc = 100\<rparr>),
             (50, \<lparr>SequenceNumber = 1, batch_BeforeInboxAcc = 101\<rparr>),
             (120, \<lparr>SequenceNumber = 2, batch_BeforeInboxAcc = 102\<rparr>),
             (130, \<lparr>SequenceNumber = 3, batch_BeforeInboxAcc = 103\<rparr>),
             (140, \<lparr>SequenceNumber = 4, batch_BeforeInboxAcc = 104\<rparr>),
             (200, \<lparr>SequenceNumber = 5, batch_BeforeInboxAcc = 105\<rparr>)]"

definition heldPrefix :: "nat deps" where
  "heldPrefix = still\<lparr>
     l1Reader_LastHeader := (\<lambda>w. (Inr \<lparr>Number = 300\<rparr>, w)),
     sequencerInbox_GetBatchCount := (\<lambda>h w. (Inr 6, w)),
     sequencerInbox_GetAccumulator := (\<lambda>n h w. (Inr (ucast n + 101), w)),
     sequencerInbox_LookupBatchesInRange :=
       (\<lambda>f t w. (Inr (map snd (filter (\<lambda>p. f \<le> fst p \<and> fst p \<le> t) chain6)), w)),
     tracker_GetBatchCount := (\<lambda>w. (Inr 5, w)),
     tracker_GetBatchAcc :=
       (\<lambda>n w. if n < 5 then (Inr (ucast n + 101), w) else (Inl accumulatorNotFound, w))\<rparr>"

definition readTo140 :: "nat state" where
  "readTo140 = fresh\<lparr>lastReadBlock := 140, lastReadBatchCount := 5, lastSeenBatchCount := 5\<rparr>"

section \<open>Properties\<close>

subsection \<open>The reorg walker\<close>

text \<open>
  Claim C4. For every block \<open>from\<close>: above the first message block,
  \<^verbatim>\<open>getPrevBlockForReorg\<close> returns the larger of \<open>from - 10\<close> and the first message
  block; at or below the first message block it fails with the error that it cannot get
  older messages.
\<close>

theorem getPrevBlockForReorg_spec:
  "(from > firstMessageBlock \<longrightarrow>
      getPrevBlockForReorg firstMessageBlock from = Inr (max (from - 10) firstMessageBlock))
   \<and> (from \<le> firstMessageBlock \<longrightarrow>
      getPrevBlockForReorg firstMessageBlock from = Inl (errors_New ''can't get older messages''))"
  by (simp add: getPrevBlockForReorg_def Let_def max_def)

theorem getPrevBlockForReorg_spec_witness:
  "getPrevBlockForReorg 100 250 = Inr 240
   \<and> getPrevBlockForReorg 100 105 = Inr 100
   \<and> getPrevBlockForReorg 100 100 = Inl (errors_New ''can't get older messages'')"
  using getPrevBlockForReorg_spec [of 100 250] getPrevBlockForReorg_spec [of 100 105]
    getPrevBlockForReorg_spec [of 100 100]
  by simp

subsection \<open>The next start block\<close>

text \<open>
  Claim C5. \<^verbatim>\<open>getNextBlockToRead\<close> returns the first message block when the tracker's
  delayed count is 0, and otherwise the larger of the block number of the last stored
  delayed message (the one at index count - 1) and the first message block.
\<close>

theorem getNextBlockToRead_spec:
  "(tracker_GetDelayedCount d (world s) = (Inr 0, wa) \<longrightarrow>
      fst (getNextBlockToRead d firstMessageBlock s) = Inr firstMessageBlock)
   \<and> (tracker_GetDelayedCount d (world s) = (Inr n, wa) \<and> n \<noteq> 0
        \<and> tracker_GetDelayedMessage d (n - 1) wa = (Inr msg, wb) \<longrightarrow>
      fst (getNextBlockToRead d firstMessageBlock s)
        = Inr (max (uint (Header_BlockNumber msg)) firstMessageBlock))"
  by (simp add: getNextBlockToRead_def call_def call_result_def Let_def max_def)

theorem getNextBlockToRead_spec_witness:
  "fst (getNextBlockToRead still 10 fresh) = Inr 10
   \<and> fst (getNextBlockToRead
        (still\<lparr>tracker_GetDelayedCount := (\<lambda>w. (Inr 3, w)),
               tracker_GetDelayedMessage := (\<lambda>n w.
                 (Inr \<lparr>Header_BlockNumber = 10 + n, Header_SeqNum = Inr n,
                       ParseInitMessage = Inr 1\<rparr>, w))\<rparr>) 10 fresh) = Inr 12
   \<and> fst (getNextBlockToRead
        (still\<lparr>tracker_GetDelayedCount := (\<lambda>w. (Inr 3, w))\<rparr>) 10 fresh) = Inr 10"
  using getNextBlockToRead_spec [where d = still and s = fresh and wa = 0
        and firstMessageBlock = 10]
    getNextBlockToRead_spec [where d = "still\<lparr>tracker_GetDelayedCount := (\<lambda>w. (Inr 3, w)),
               tracker_GetDelayedMessage := (\<lambda>n w.
                 (Inr \<lparr>Header_BlockNumber = 10 + n, Header_SeqNum = Inr n,
                       ParseInitMessage = Inr 1\<rparr>, w))\<rparr>" and s = fresh and n = 3 and wa = 0
        and firstMessageBlock = 10 and wb = 0
        and msg = "\<lparr>Header_BlockNumber = 12, Header_SeqNum = Inr 2, ParseInitMessage = Inr 1\<rparr>"]
    getNextBlockToRead_spec [where d = "still\<lparr>tracker_GetDelayedCount := (\<lambda>w. (Inr 3, w))\<rparr>"
        and s = fresh and n = 3 and wa = 0 and firstMessageBlock = 10 and wb = 0
        and msg = "\<lparr>Header_BlockNumber = 0, Header_SeqNum = Inr 0, ParseInitMessage = Inr 1\<rparr>"]
  by (simp add: still_def fresh_def)

subsection \<open>The bytes of a sequencer batch\<close>

lemma serialize_first_match_find:
  "fst (serialize_first_match d seqNum bs s)
     = (case find (\<lambda>b. SequenceNumber b = seqNum) bs of
          Some batch \<Rightarrow> fst (batch_Serialize d batch (world s))
        | None \<Rightarrow> Inl (errors_New ''sequencer batch not found''))"
  by (induction bs) (simp_all split: prod.split)

lemma serialize_first_match_trace:
  "trace (snd (serialize_first_match d seqNum bs s)) = trace s"
  by (induction bs) (simp_all split: prod.split)


text \<open>
  Claim C8. \<^verbatim>\<open>GetSequencerMessageBytes\<close> reads the batch's metadata from the tracker,
  queries the sequencer inbox for the range from the metadata's parent-chain block to that
  same block, and returns the serialized bytes of the first returned batch whose sequence
  number is the one asked for; when no returned batch has that number it fails with the
  error that the sequencer batch was not found.
\<close>

theorem GetSequencerMessageBytes_spec:
  assumes "tracker_GetBatchMetadata d seqNum (world s) = (Inr metadata, wa)"
    and "sequencerInbox_LookupBatchesInRange d (uint (L1Block metadata))
           (uint (L1Block metadata)) wa = (Inr seqBatches, wb)"
  shows "trace (snd (GetSequencerMessageBytes d seqNum s))
           = trace s @ [Ev_tracker_GetBatchMetadata seqNum,
               Ev_sequencerInbox_LookupBatchesInRange (uint (L1Block metadata))
                 (uint (L1Block metadata)) (Inr seqBatches)]
         \<and> fst (GetSequencerMessageBytes d seqNum s)
           = (case find (\<lambda>b. SequenceNumber b = seqNum) seqBatches of
                Some batch \<Rightarrow> fst (batch_Serialize d batch wb)
              | None \<Rightarrow> Inl (errors_New ''sequencer batch not found''))"
  using assms
  by (simp add: GetSequencerMessageBytes_def call_def call_result_def Let_def serialize_first_match_find
      serialize_first_match_trace split: option.split)

theorem GetSequencerMessageBytes_spec_witness:
  "fst (GetSequencerMessageBytes archive 4 fresh) = Inr [4]
   \<and> fst (GetSequencerMessageBytes archive 5 fresh) = Inl (errors_New ''sequencer batch not found'')
   \<and> trace (snd (GetSequencerMessageBytes archive 4 fresh))
       = [Ev_tracker_GetBatchMetadata 4,
          Ev_sequencerInbox_LookupBatchesInRange 7 7 (Inr batchesAt7)]"
  using GetSequencerMessageBytes_spec [where d = archive and s = fresh and seqNum = 4
      and metadata = "\<lparr>L1Block = 7\<rparr>" and wa = 0 and wb = 0 and seqBatches = batchesAt7]
    GetSequencerMessageBytes_spec [where d = archive and s = fresh and seqNum = 5
      and metadata = "\<lparr>L1Block = 7\<rparr>" and wa = 0 and wb = 0 and seqBatches = batchesAt7]
  by (simp add: archive_def still_def fresh_def batchesAt7_def)

subsection \<open>A first entry at position 0\<close>

lemma skipBatches_reorgingSequencer:
  "reorgingSequencer (snd (skipBatches d bs s)) = reorgingSequencer s"
  by (induction bs arbitrary: s)
     (auto simp: call_def call_result_def split: prod.splits sum.splits)

text \<open>
  Claim C9. When the first batch of a range query has sequence number 0, or the first
  delayed message has sequence number 0, the check of its \<^verbatim>\<open>BeforeInboxAcc\<close> against
  the tracker's previous accumulator is skipped: the check makes no call and raises no
  flag, so after the analysis of such a slice the reorging flag of its stream is clear.
\<close>

theorem genesis_entry_skips_chaining_check:
  "(SequenceNumber firstBatch = 0 \<longrightarrow>
      checkFirstBatch d firstBatch s = (Proceed (), s)
      \<and> \<not> reorgingSequencer (snd (analyseSequencer d to (firstBatch # batches) s)))
   \<and> (Header_SeqNum (Message firstMsg) = Inr 0 \<longrightarrow>
      checkFirstDelayed d firstMsg s = (Proceed (), s)
      \<and> analyseDelayed d to (firstMsg # msgs) s
          = (Proceed (), s\<lparr>missingDelayed := False, reorgingDelayed := False\<rparr>))"
  by (simp add: checkFirstBatch_def checkFirstDelayed_def analyseSequencer_def
      analyseDelayed_def then_do_def skipBatches_reorgingSequencer del: skipBatches.simps)

theorem genesis_entry_skips_chaining_check_witness:
  "checkFirstBatch still genesisBatch fresh = (Proceed (), fresh)
   \<and> \<not> reorgingSequencer (snd (analyseSequencer still 20 [genesisBatch] fresh))
   \<and> checkFirstDelayed still genesisMsg fresh = (Proceed (), fresh)
   \<and> analyseDelayed still 20 [genesisMsg] fresh
        = (Proceed (), fresh\<lparr>missingDelayed := False, reorgingDelayed := False\<rparr>)"
  using genesis_entry_skips_chaining_check [where firstBatch = genesisBatch and d = still
      and s = fresh and to = 20 and batches = "[]" and firstMsg = genesisMsg and msgs = "[]"]
  by (simp add: genesisBatch_def genesisMsg_def)

subsection \<open>The bootstrap gate\<close>










section \<open>The passes of run\<close>

subsection \<open>The relations are preorders\<close>

lemma quiet_refl: "quiet s s"
  by (simp add: quiet_def)

lemma quiet_trans: "quiet s s' \<Longrightarrow> quiet s' s'' \<Longrightarrow> quiet s s''"
  by (auto simp: quiet_def)

lemma calm_refl: "calm s s"
  by (simp add: calm_def)

lemma calm_trans: "calm s s' \<Longrightarrow> calm s' s'' \<Longrightarrow> calm s s''"
  by (simp add: calm_def)



lemma orderly_refl: "orderly s s"
  by (simp add: orderly_def)

lemma orderly_trans:
  assumes "orderly s s'" and "orderly s' s''"
  shows "orderly s s''"
proof -
  let ?touched = "\<lambda>evs c. \<exists>bs r. bs \<noteq> [] \<and> accepted r
      \<and> Ev_tracker_AddSequencerBatches bs r \<in> set evs \<and> c = SequenceNumber (last bs) + 1"
  from assms(1) obtain evs where t1: "trace s' = trace s @ evs"
    and p1: "(lastReadBlock s' = lastReadBlock s \<and> lastReadBatchCount s' = lastReadBatchCount s)
        \<or> ?touched evs (lastReadBatchCount s')"
    and k1: "seen_in_step s \<longrightarrow> seen_in_step s'"
    unfolding orderly_def by blast
  from assms(2) obtain evs' where t2: "trace s'' = trace s' @ evs'"
    and p2: "(lastReadBlock s'' = lastReadBlock s' \<and> lastReadBatchCount s'' = lastReadBatchCount s')
        \<or> ?touched evs' (lastReadBatchCount s'')"
    and k2: "seen_in_step s' \<longrightarrow> seen_in_step s''"
    unfolding orderly_def by blast
  have t: "trace s'' = trace s @ (evs @ evs')"
    by (simp add: t1 t2)
  have "(lastReadBlock s'' = lastReadBlock s \<and> lastReadBatchCount s'' = lastReadBatchCount s)
        \<or> ?touched (evs @ evs') (lastReadBatchCount s'')"
  proof (cases "?touched evs' (lastReadBatchCount s'')")
    case True
    then have "?touched (evs @ evs') (lastReadBatchCount s'')"
      by (simp only: set_append Un_iff) blast
    then show ?thesis ..
  next
    case False
    with p2 have same: "lastReadBlock s'' = lastReadBlock s'"
      "lastReadBatchCount s'' = lastReadBatchCount s'"
      by blast+
    from p1 show ?thesis
    proof
      assume "lastReadBlock s' = lastReadBlock s \<and> lastReadBatchCount s' = lastReadBatchCount s"
      with same show ?thesis by simp
    next
      assume "?touched evs (lastReadBatchCount s')"
      then have "?touched (evs @ evs') (lastReadBatchCount s'')"
        unfolding same by (simp only: set_append Un_iff) blast
      then show ?thesis ..
    qed
  qed
  with t k1 k2 show ?thesis
    unfolding orderly_def by blast
qed









lemma quiet_orderly: "quiet s s' \<Longrightarrow> orderly s s'"
  by (auto simp: quiet_def orderly_def seen_in_step_def)




lemma calm_orderly: "calm s s' \<Longrightarrow> orderly s s'"
  by (simp add: calm_def orderly_def seen_in_step_def)


subsection \<open>Sequencing\<close>

lemma then_do_cases:
  assumes "then_do m f s = (r, s'')"
  obtains (proceed) a s' where "m s = (Proceed a, s')" and "f a s' = (r, s'')"
  | (stop) r' where "m s = (r', s'')" and "\<forall>a. r' \<noteq> Proceed a"
      and "r = (case r' of Break \<Rightarrow> Break | Return e \<Rightarrow> Return e | _ \<Rightarrow> OutOfFuel)"
  using assms by (auto simp: then_do_def split: prod.splits ctl.splits)


lemma then_do_rel:
  assumes "\<And>a b c. R a b \<Longrightarrow> R b c \<Longrightarrow> R a c"
    and "R s (snd (m s))"
    and "\<And>a s'. m s = (Proceed a, s') \<Longrightarrow> R s' (snd (f a s'))"
  shows "R s (snd (then_do m f s))"
proof (cases "m s")
  case (Pair r s')
  with assms(2) have 1: "R s s'" by simp
  show ?thesis
  proof (cases r)
    case (Proceed a)
    with Pair assms(3) have "R s' (snd (f a s'))" by simp
    with 1 assms(1) have "R s (snd (f a s'))" by blast
    with Pair Proceed show ?thesis by (simp add: then_do_def)
  qed (use Pair 1 in \<open>simp_all add: then_do_def\<close>)
qed


lemma or_return_snd: "snd (or_return m s) = snd (m s)"
  by (simp add: or_return_def split: prod.splits sum.splits)

lemma or_return_err_snd: "snd (or_return_err m s) = snd (m s)"
  by (simp add: or_return_err_def split: prod.splits option.splits)

lemma call_snd:
  "snd (call ev f s) = s\<lparr>world := snd (f (world s)), trace := trace s @ [ev]\<rparr>"
  by (simp add: call_def call_result_def split: prod.splits)

lemma call_result_snd:
  "snd (call_result ev f s)
     = s\<lparr>world := snd (f (world s)), trace := trace s @ [ev (fst (f (world s)))]\<rparr>"
  by (simp add: call_result_def split: prod.splits)

lemma extern_snd: "snd (extern f s) = s\<lparr>world := snd (f (world s))\<rparr>"
  by (simp add: extern_def split: prod.splits)


subsection \<open>The probes and the chaining checks are quiet\<close>

lemma quiet_then_do:
  "quiet s (snd (m s)) \<Longrightarrow> (\<And>a s'. m s = (Proceed a, s') \<Longrightarrow> quiet s' (snd (f a s')))
     \<Longrightarrow> quiet s (snd (then_do m f s))"
  by (rule then_do_rel [where R = quiet]) (blast intro: quiet_trans)+

lemma quiet_call: "probe_event (currentHeight s) ev \<Longrightarrow> quiet s (snd (call ev f s))"
  by (simp add: call_snd quiet_def)

lemma quiet_if:
  "(c \<Longrightarrow> quiet s (snd a)) \<Longrightarrow> (\<not> c \<Longrightarrow> quiet s (snd b)) \<Longrightarrow> quiet s (snd (if c then a else b))"
  by simp

lemma quiet_set:
  "quiet s s' \<Longrightarrow> quiet s (s'\<lparr>reorgingDelayed := a\<rparr>)"
  "quiet s s' \<Longrightarrow> quiet s (s'\<lparr>missingDelayed := a\<rparr>)"
  "quiet s s' \<Longrightarrow> quiet s (s'\<lparr>reorgingSequencer := a\<rparr>)"
  "quiet s s' \<Longrightarrow> quiet s (s'\<lparr>missingSequencer := a\<rparr>)"
  "quiet s s' \<Longrightarrow> quiet s (s'\<lparr>seenBatchCount := n\<rparr>)"
  "quiet s s' \<Longrightarrow> quiet s (s'\<lparr>checkingBatchCount := n\<rparr>)"
  by (simp_all add: quiet_def)

lemma probeDelayed_quiet: "quiet s (snd (probeDelayed d cfg s))"
  unfolding probeDelayed_def Let_def
  by (intro quiet_then_do quiet_if)
     (simp_all add: or_return_snd or_return_err_snd quiet_call quiet_set quiet_refl)

lemma probeSequencer_first_quiet:
  "quiet s (snd (case call_result (Ev_sequencerInbox_GetBatchCount (currentHeight s)) f s of
      (Inl err, s1) \<Rightarrow> (Return (Some err), s1\<lparr>seenBatchCount := 0\<rparr>)
    | (Inr n, s1) \<Rightarrow> (Proceed (), s1\<lparr>seenBatchCount := n, checkingBatchCount := n\<rparr>)))"
  by (auto simp: call_def call_result_def quiet_def split: prod.splits sum.splits)

lemma probeSequencer_quiet: "quiet s (snd (probeSequencer d cfg s))"
  unfolding probeSequencer_def Let_def
  by (intro quiet_then_do quiet_if probeSequencer_first_quiet)
     (simp_all add: or_return_snd or_return_err_snd quiet_call quiet_set quiet_refl)

lemma checkFirstBatch_quiet: "quiet s (snd (checkFirstBatch d b s))"
  by (auto simp: checkFirstBatch_def call_def call_result_def quiet_def
      split: prod.splits sum.splits)

lemma skipBatches_quiet: "quiet s (snd (skipBatches d bs s))"
proof (induction bs arbitrary: s)
  case Nil
  show ?case by (simp add: quiet_refl)
next
  case (Cons b bs)
  obtain r w where f: "tracker_GetBatchAcc d (SequenceNumber b) (world s) = (r, w)"
    by (cases "tracker_GetBatchAcc d (SequenceNumber b) (world s)")
  let ?s1 = "s\<lparr>world := w, trace := trace s @ [Ev_tracker_GetBatchAcc (SequenceNumber b)]\<rparr>"
  have q1: "quiet s ?s1"
    by (simp add: quiet_def)
  show ?case
  proof (cases r)
    case (Inl err)
    with f q1 show ?thesis
      by (simp add: call_def call_result_def)
  next
    case (Inr haveAcc)
    show ?thesis
    proof (cases "haveAcc = batch_BeforeInboxAcc b")
      case True
      from Cons.IH [of ?s1] q1 have "quiet s (snd (skipBatches d bs ?s1))"
        by (rule quiet_trans [rotated])
      with f Inr True show ?thesis
        by (simp add: call_def call_result_def)
    next
      case False
      with f Inr q1 show ?thesis
        by (simp add: call_def call_result_def)
    qed
  qed
qed

lemma analyseSequencer_quiet: "quiet s (snd (analyseSequencer d to bs s))"
proof (cases bs)
  case Nil
  then show ?thesis
    by (simp add: analyseSequencer_def quiet_def)
next
  case (Cons b rest)
  let ?s0 = "s\<lparr>missingSequencer := False, reorgingSequencer := False\<rparr>"
  have "quiet s ?s0"
    by (simp add: quiet_def)
  moreover have "quiet ?s0 (snd (then_do (checkFirstBatch d b)
            (\<lambda>u s'. if \<not> reorgingSequencer s' then skipBatches d (b # rest) s'
                     else (Proceed (b # rest), s')) ?s0))"
    by (intro quiet_then_do quiet_if checkFirstBatch_quiet skipBatches_quiet)
       (simp add: quiet_refl)
  ultimately show ?thesis
    using Cons by (simp add: analyseSequencer_def) (rule quiet_trans)
qed

lemma checkFirstDelayed_quiet: "quiet s (snd (checkFirstDelayed d m s))"
  by (auto simp: checkFirstDelayed_def call_def call_result_def quiet_def Let_def
      split: prod.splits sum.splits)

lemma analyseDelayed_quiet: "quiet s (snd (analyseDelayed d to ms s))"
proof (cases ms)
  case Nil
  then show ?thesis
    by (simp add: analyseDelayed_def quiet_def)
next
  case (Cons m rest)
  let ?s0 = "s\<lparr>missingDelayed := False, reorgingDelayed := False\<rparr>"
  have "quiet s ?s0"
    by (simp add: quiet_def)
  then show ?thesis
    using Cons checkFirstDelayed_quiet [of ?s0 d m]
    by (simp add: analyseDelayed_def) (rule quiet_trans)
qed


subsection \<open>Pacing and the delay window are calm\<close>

lemma currentHeight_assign_calm: "calm s (currentHeight_assign v b s)"
  by (simp add: calm_def currentHeight_assign_def)

lemma WaitForHeight_calm: "calm s (snd (WaitForHeight d fuel needed s))"
proof (induction fuel arbitrary: s)
  case 0
  show ?case by (simp add: calm_refl)
next
  case (Suc fuel)
  obtain c w where sel: "select_WaitForHeight d (world s) = (c, w)"
    by (cases "select_WaitForHeight d (world s)")
  have 1: "calm s (s\<lparr>world := w\<rparr>)"
    by (simp add: calm_def)
  show ?case
  proof (cases "currentHeight s < needed")
    case False
    then show ?thesis by (simp add: calm_refl)
  next
    case True
    show ?thesis
    proof (cases c)
      case (newHeaders h)
      show ?thesis
      proof (cases h)
        case None
        with True sel newHeaders 1 show ?thesis
          by (simp add: extern_def)
      next
        case (Some hd)
        let ?s1 = "currentHeight_assign (Number hd) False (s\<lparr>world := w\<rparr>)"
        have "calm s ?s1"
          using 1 currentHeight_assign_calm by (rule calm_trans)
        then have "calm s (snd (WaitForHeight d fuel needed ?s1))"
          using Suc.IH by (rule calm_trans)
        with True sel newHeaders Some show ?thesis
          by (simp add: extern_def)
      qed
    qed (use True sel 1 in \<open>simp_all add: extern_def\<close>)
  qed
qed

lemma pace_calm: "calm s (snd (pace d cfg fuel s))"
  unfolding pace_def Let_def
  apply (rule then_do_rel [where R = calm])
    apply (erule (1) calm_trans)
   apply (simp add: or_return_snd extern_snd calm_def)
  apply (rule calm_trans [OF currentHeight_assign_calm WaitForHeight_calm])
  done

lemma delayWindow_calm: "calm s (clearFlags (delayWindow cfg fmb s))"
  by (simp add: calm_def clearFlags_def delayWindow_def currentHeight_assign_def)


subsection \<open>A pass that stops is orderly\<close>

lemma orderly_then_do:
  "orderly s (snd (m s)) \<Longrightarrow> (\<And>a s'. m s = (Proceed a, s') \<Longrightarrow> orderly s' (snd (f a s')))
     \<Longrightarrow> orderly s (snd (then_do m f s))"
  by (rule then_do_rel [where R = orderly]) (blast intro: orderly_trans)+

lemma call_result_orderly: "orderly s (snd (call_result ev f s))"
  by (simp add: call_result_snd orderly_def seen_in_step_def)

lemma signalCaughtUp_orderly: "orderly s (signalCaughtUp to s)"
  by (simp add: signalCaughtUp_def orderly_def seen_in_step_def)

lemma applyBundle_orderly: "orderly s (snd (applyBundle d to bs ms s))"
proof -
  obtain e1 w1 where a1: "tracker_AddDelayedMessages d ms (world s) = (e1, w1)"
    by (cases "tracker_AddDelayedMessages d ms (world s)")
  obtain e2 w2 where a2: "tracker_AddSequencerBatches d bs w1 = (e2, w2)"
    by (cases "tracker_AddSequencerBatches d bs w1")
  show ?thesis
    using a1 a2
    by (auto simp: applyBundle_def addMessages_def then_do_def or_return_def call_def
        call_result_def accepted_def orderly_def seen_in_step_def storeSeenBatchCount_def
        store_lastRead_def Let_def
        split: option.splits)
qed

lemma advance_calm: "calm s (snd (advance d fmb to s))"
  by (auto simp: advance_def from_Add_def calm_def split: sum.splits from_ref.splits)

lemma scanStart_calm: "calm s (snd (scanStart s))"
  by (simp add: scanStart_def calm_def Let_def)

lemma scanRange_orderly: "orderly s (snd (scanRange d fmb s))"
  unfolding scanRange_def Let_def
  by (intro orderly_then_do)
     (simp_all add: or_return_snd call_result_orderly applyBundle_orderly
       quiet_orderly [OF analyseDelayed_quiet] calm_orderly [OF advance_calm]
       orderly_trans [OF signalCaughtUp_orderly quiet_orderly [OF analyseSequencer_quiet]])

lemma scanIteration_orderly: "orderly s (snd (scanIteration d fmb s))"
proof (cases "ctx_Err d (world s)")
  case True
  then show ?thesis by (simp add: scanIteration_def orderly_refl)
next
  case False
  have "orderly s (snd (then_do scanStart (\<lambda>u. scanRange d fmb) s))"
    by (intro orderly_then_do scanRange_orderly calm_orderly scanStart_calm)
  with False show ?thesis by (simp add: scanIteration_def)
qed

lemma scan_orderly: "orderly s (snd (scan d fmb fuel s))"
proof (induction fuel arbitrary: s)
  case 0
  show ?case by (simp add: orderly_refl)
next
  case (Suc fuel)
  obtain r s1 where it: "scanIteration d fmb s = (r, s1)"
    by (cases "scanIteration d fmb s")
  with scanIteration_orderly [of s d fmb] have 1: "orderly s s1"
    by simp
  show ?case
  proof (cases r)
    case (Proceed u)
    from 1 Suc.IH [of s1] have "orderly s (snd (scan d fmb fuel s1))"
      by (rule orderly_trans)
    with it Proceed show ?thesis by simp
  qed (use it 1 in simp_all)
qed

lemma probes_orderly: "orderly s (snd (probes d cfg fmb s))"
proof -
  let ?s0 = "clearFlags (delayWindow cfg fmb s)"
  have "orderly ?s0 (snd (then_do (probeDelayed d cfg) (\<lambda>u. probeSequencer d cfg) ?s0))"
    by (intro orderly_then_do quiet_orderly probeDelayed_quiet probeSequencer_quiet)
  with calm_orderly [OF delayWindow_calm] show ?thesis
    unfolding probes_def by (rule orderly_trans)
qed

lemma pass_stops_orderly:
  assumes "pass d cfg fmb fuel s = (r, s')" and "\<forall>a. r \<noteq> Proceed a"
  shows "orderly s s'"
proof -
  from assms(1) show ?thesis
    unfolding pass_def
  proof (cases rule: then_do_cases)
    case (stop r')
    with pace_calm [of s d cfg fuel] show ?thesis
      by (simp add: calm_orderly)
  next
    case (proceed u sp)
    from proceed(1) pace_calm [of s d cfg fuel] have 1: "orderly s sp"
      by (simp add: calm_orderly)
    from proceed(2) have "orderly sp s'"
      unfolding probeAndScan_def
    proof (cases rule: then_do_cases)
      case (stop r')
      with probes_orderly [of sp d cfg fmb] show ?thesis by simp
    next
      case (proceed u' s1)
      from proceed(1) probes_orderly [of sp d cfg fmb] have 2: "orderly sp s1" by simp
      show ?thesis
      proof (cases "nothingToDo s1")
        case True
        with proceed(2) assms(2) show ?thesis by auto
      next
        case False
        with proceed(2) have "scanPhase d fmb fuel s1 = (r, s')" by simp
        then have "orderly s1 s'"
          unfolding scanPhase_def
        proof (cases rule: then_do_cases)
          case (stop r'')
          have "orderly s1 (s1\<lparr>readAnyBatches := False\<rparr>)"
            by (simp add: orderly_def seen_in_step_def)
          moreover from stop(1) scan_orderly [of "s1\<lparr>readAnyBatches := False\<rparr>" d fmb fuel]
          have "orderly (s1\<lparr>readAnyBatches := False\<rparr>) s'" by simp
          ultimately show ?thesis by (rule orderly_trans)
        next
          case (proceed u'' s2)
          with assms(2) show ?thesis by auto
        qed
        with 2 show ?thesis by (rule orderly_trans)
      qed
    qed
    with 1 show ?thesis by (rule orderly_trans)
  qed
qed


subsection \<open>Every query of a pass is within its height\<close>


lemma steady_call_result:
  "within (currentHeight s) (ev (fst (f (world s)))) \<Longrightarrow> steady s (snd (call_result ev f s))"
  by (simp add: call_result_snd steady_def)



















subsection \<open>Counters after a failed pass\<close>


text \<open>
  Claim C1, as the specification states it: after a pass that ends in an error the three
  published counters have the values they had before it. The code does otherwise: the
  header reader fails in the first pass of a call of \<^verbatim>\<open>run\<close>, the pass ends in that
  error, and the deferred \<^verbatim>\<open>storeSeenBatchCount\<close> overwrites a
  \<^verbatim>\<open>lastSeenBatchCount\<close> of 5 with 0.
\<close>

theorem failed_pass_counterexample:
  "fst (run noHeader DefaultInboxReaderConfig 10 5 1 resumed)
     = Return (Some (errors_New ''header not found''))
   \<and> lastSeenBatchCount resumed = 5
   \<and> lastSeenBatchCount (snd (run noHeader DefaultInboxReaderConfig 10 5 1 resumed)) = 0"
  by code_simp


text \<open>
  Claim C1, amended. When a pass ends in an error, \<^verbatim>\<open>lastReadBlock\<close> and
  \<^verbatim>\<open>lastReadBatchCount\<close> have the values they had before the pass, unless the tracker
  had accepted a non-empty list of batches earlier in the pass (it answered \<^verbatim>\<open>nil\<close> or
  the delayed-messages mismatch; each such apply publishes the pair). An apply step in
  which a call of the tracker fails returns that error before its stores and leaves the
  three counters as they were. \<^verbatim>\<open>lastSeenBatchCount\<close> is not kept over the pass: the
  deferred store that runs on the return sets it to the loop's \<^verbatim>\<open>seenBatchCount\<close>
  (unless that is \<^verbatim>\<open>math.MaxUint64\<close> and nothing was stored yet), and
  \<^verbatim>\<open>seenBatchCount\<close> is 0 when the batch-count query of the sequencer inbox is what
  failed. The hypothesis \<open>seen_in_step\<close> holds before the first pass of every call of
  \<^verbatim>\<open>run\<close> and is kept by every pass.
\<close>

theorem failed_pass_counters:
  "(pass d cfg fmb fuel s = (Return (Some err), s') \<longrightarrow>
     (\<exists>evs. trace s' = trace s @ evs
        \<and> ((\<forall>bs r. Ev_tracker_AddSequencerBatches bs r \<in> set evs \<and> accepted r \<longrightarrow> bs = []) \<longrightarrow>
             lastReadBlock (deferred d s') = lastReadBlock s
             \<and> lastReadBatchCount (deferred d s') = lastReadBatchCount s))
     \<and> (seen_in_step s \<and> seenBatchCount s' \<noteq> - 1 \<longrightarrow>
          lastSeenBatchCount (deferred d s') = seenBatchCount s'))
   \<and> (sequencerInbox_GetBatchCount d (currentHeight s) (world s) = (Inl err, w) \<longrightarrow>
        fst (probeSequencer d cfg s) = Return (Some err)
        \<and> seenBatchCount (snd (probeSequencer d cfg s)) = 0)
   \<and> (\<not> reorgingDelayed s \<and> \<not> reorgingSequencer s \<and> (ms \<noteq> [] \<or> bs \<noteq> [])
        \<and> addMessages d bs ms s = (Inl err, sa) \<longrightarrow>
        applyBundle d to bs ms s = (Return (Some err), sa)
        \<and> lastReadBlock sa = lastReadBlock s \<and> lastReadBatchCount sa = lastReadBatchCount s
        \<and> lastSeenBatchCount sa = lastSeenBatchCount s)"
proof (intro conjI impI)
  assume "pass d cfg fmb fuel s = (Return (Some err), s')"
  then have o: "orderly s s'"
    by (rule pass_stops_orderly) simp
  then obtain evs where tr: "trace s' = trace s @ evs"
    and rd: "(lastReadBlock s' = lastReadBlock s \<and> lastReadBatchCount s' = lastReadBatchCount s)
             \<or> (\<exists>bs r. bs \<noteq> [] \<and> accepted r \<and> Ev_tracker_AddSequencerBatches bs r \<in> set evs
                   \<and> lastReadBatchCount s' = SequenceNumber (last bs) + 1)"
    unfolding orderly_def by blast
  have "(\<forall>bs r. Ev_tracker_AddSequencerBatches bs r \<in> set evs \<and> accepted r \<longrightarrow> bs = []) \<longrightarrow>
             lastReadBlock (deferred d s') = lastReadBlock s
             \<and> lastReadBatchCount (deferred d s') = lastReadBatchCount s"
  proof
    assume "\<forall>bs r. Ev_tracker_AddSequencerBatches bs r \<in> set evs \<and> accepted r \<longrightarrow> bs = []"
    with rd have "lastReadBlock s' = lastReadBlock s \<and> lastReadBatchCount s' = lastReadBatchCount s"
      by blast
    then show "lastReadBlock (deferred d s') = lastReadBlock s
             \<and> lastReadBatchCount (deferred d s') = lastReadBatchCount s"
      by (simp add: deferred_def storeSeenBatchCount_def Let_def)
  qed
  with tr show "\<exists>evs. trace s' = trace s @ evs
        \<and> ((\<forall>bs r. Ev_tracker_AddSequencerBatches bs r \<in> set evs \<and> accepted r \<longrightarrow> bs = []) \<longrightarrow>
             lastReadBlock (deferred d s') = lastReadBlock s
             \<and> lastReadBatchCount (deferred d s') = lastReadBatchCount s)"
    by blast
  assume "seen_in_step s \<and> seenBatchCount s' \<noteq> - 1"
  with o have "seen_in_step s'" and "seenBatchCount s' \<noteq> - 1"
    by (simp_all add: orderly_def)
  then show "lastSeenBatchCount (deferred d s') = seenBatchCount s'"
    by (auto simp: deferred_def storeSeenBatchCount_def seen_in_step_def Let_def)
next
  assume "sequencerInbox_GetBatchCount d (currentHeight s) (world s) = (Inl err, w)"
  then show "fst (probeSequencer d cfg s) = Return (Some err)"
    and "seenBatchCount (snd (probeSequencer d cfg s)) = 0"
    by (simp_all add: probeSequencer_def then_do_def call_def call_result_def)
next
  assume a: "\<not> reorgingDelayed s \<and> \<not> reorgingSequencer s \<and> (ms \<noteq> [] \<or> bs \<noteq> [])
        \<and> addMessages d bs ms s = (Inl err, sa)"
  then show "applyBundle d to bs ms s = (Return (Some err), sa)"
    by (simp add: applyBundle_def then_do_def or_return_def)
  from a have "sa = snd (addMessages d bs ms s)"
    by simp
  then show "lastReadBlock sa = lastReadBlock s" and "lastReadBatchCount sa = lastReadBatchCount s"
    and "lastSeenBatchCount sa = lastSeenBatchCount s"
    by (simp_all add: addMessages_def call_result_def split: prod.splits option.splits)
qed

theorem failed_pass_counters_witness:
  "fst (pass noBatchCount DefaultInboxReaderConfig 10 5 (resumedAt 10))
     = Return (Some (errors_New ''header not found''))
   \<and> lastReadBlock (deferred noBatchCount
        (snd (pass noBatchCount DefaultInboxReaderConfig 10 5 (resumedAt 10)))) = 20
   \<and> lastReadBatchCount (deferred noBatchCount
        (snd (pass noBatchCount DefaultInboxReaderConfig 10 5 (resumedAt 10)))) = 5
   \<and> lastSeenBatchCount (resumedAt 10) = 5
   \<and> lastSeenBatchCount (deferred noBatchCount
        (snd (pass noBatchCount DefaultInboxReaderConfig 10 5 (resumedAt 10)))) = 0
   \<and> seenBatchCount (snd (probeSequencer noBatchCount DefaultInboxReaderConfig (resumedAt 10))) = 0
   \<and> fst (pass trackerFails DefaultInboxReaderConfig 10 5 (resumedAt 10))
     = Return (Some (errors_New ''database closed''))
   \<and> Ev_tracker_AddSequencerBatches [genesisBatch] (Some (errors_New ''database closed''))
       \<in> set (trace (snd (pass trackerFails DefaultInboxReaderConfig 10 5 (resumedAt 10))))
   \<and> lastReadBlock (deferred trackerFails
        (snd (pass trackerFails DefaultInboxReaderConfig 10 5 (resumedAt 10)))) = 20
   \<and> lastReadBatchCount (deferred trackerFails
        (snd (pass trackerFails DefaultInboxReaderConfig 10 5 (resumedAt 10)))) = 5
   \<and> lastSeenBatchCount (deferred trackerFails
        (snd (pass trackerFails DefaultInboxReaderConfig 10 5 (resumedAt 10)))) = 1
   \<and> fst (applyBundle trackerFails 20 [genesisBatch] [] (resumedAt 10))
       = Return (Some (errors_New ''database closed''))
   \<and> lastReadBatchCount (snd (applyBundle trackerFails 20 [genesisBatch] [] (resumedAt 10))) = 5"
proof -
  let ?s = "resumedAt 10"
  let ?res = "pass noBatchCount DefaultInboxReaderConfig 10 5 ?s"
  let ?rest = "pass trackerFails DefaultInboxReaderConfig 10 5 ?s"
  let ?e = "errors_New ''database closed''"
  have r: "?res = (Return (Some (errors_New ''header not found'')), snd ?res)"
    by code_simp
  have rt: "?rest = (Return (Some ?e), snd ?rest)"
    by code_simp
  have facts: "seen_in_step ?s" "seenBatchCount (snd ?res) = 0"
    "lastReadBlock ?s = 20" "lastReadBatchCount ?s = 5" "lastSeenBatchCount ?s = 5"
    "seenBatchCount (snd ?rest) = 1" "\<not> reorgingDelayed ?s" "\<not> reorgingSequencer ?s"
    by code_simp+
  have adds: "\<forall>bs r. Ev_tracker_AddSequencerBatches bs r \<in> set (trace (snd ?res)) \<and> accepted r
      \<longrightarrow> bs = []"
  proof -
    have "trace (snd ?res) = [Ev_delayedBridge_GetMessageCount 20, Ev_tracker_GetDelayedCount,
        Ev_sequencerInbox_GetBatchCount 20 (Inl (errors_New ''header not found''))]"
      by code_simp
    then show ?thesis by simp
  qed
  have tt: "trace (snd ?rest) = [Ev_delayedBridge_GetMessageCount 20, Ev_tracker_GetDelayedCount,
        Ev_sequencerInbox_GetBatchCount 20 (Inr 1), Ev_tracker_GetBatchCount,
        Ev_delayedBridge_LookupMessagesInRange 10 20 (Inr []),
        Ev_sequencerInbox_LookupBatchesInRange 10 20 (Inr [genesisBatch]),
        Ev_send_caughtUp, Ev_tracker_GetBatchAcc 0,
        Ev_tracker_AddDelayedMessages [] None,
        Ev_tracker_AddSequencerBatches [genesisBatch] (Some ?e)]"
    by code_simp
  then have addst: "\<forall>bs r. Ev_tracker_AddSequencerBatches bs r \<in> set (trace (snd ?rest))
      \<and> accepted r \<longrightarrow> bs = []"
    by (simp add: accepted_def)
  have tr: "trace ?s = []"
    by code_simp
  have q: "sequencerInbox_GetBatchCount noBatchCount (currentHeight ?s) (world ?s)
      = (Inl (errors_New ''header not found''), 0)"
    by code_simp
  have am: "addMessages trackerFails [genesisBatch] [] ?s
      = (Inl ?e, snd (addMessages trackerFails [genesisBatch] [] ?s))"
    by code_simp
  note c = failed_pass_counters [of noBatchCount DefaultInboxReaderConfig 10 5 ?s
      "errors_New ''header not found''" "snd ?res" 0]
  note ct = failed_pass_counters [where d = trackerFails and cfg = DefaultInboxReaderConfig
      and fmb = 10 and fuel = 5 and s = ?s and err = ?e and s' = "snd ?rest"
      and ms = "[]" and bs = "[genesisBatch]" and to = 20
      and sa = "snd (addMessages trackerFails [genesisBatch] [] ?s)"]
  from c [THEN conjunct1, THEN mp, OF r] tr adds facts
  have 1: "lastReadBlock (deferred noBatchCount (snd ?res)) = 20
      \<and> lastReadBatchCount (deferred noBatchCount (snd ?res)) = 5
      \<and> lastSeenBatchCount (deferred noBatchCount (snd ?res)) = 0"
    by auto
  from c [THEN conjunct2, THEN conjunct1, THEN mp, OF q]
  have 2: "seenBatchCount (snd (probeSequencer noBatchCount DefaultInboxReaderConfig ?s)) = 0"
    by simp
  have 3: "fst ?res = Return (Some (errors_New ''header not found''))"
    "fst ?rest = Return (Some ?e)"
    by code_simp+
  from ct [THEN conjunct1, THEN mp, OF rt] tr addst facts
  have 4: "lastReadBlock (deferred trackerFails (snd ?rest)) = 20
      \<and> lastReadBatchCount (deferred trackerFails (snd ?rest)) = 5
      \<and> lastSeenBatchCount (deferred trackerFails (snd ?rest)) = 1"
    by auto
  from ct [THEN conjunct2, THEN conjunct2] am facts
  have 5: "fst (applyBundle trackerFails 20 [genesisBatch] [] ?s) = Return (Some ?e)
      \<and> lastReadBatchCount (snd (applyBundle trackerFails 20 [genesisBatch] [] ?s)) = 5"
    by simp
  from 1 2 3 4 5 tt facts show ?thesis
    by simp
qed


subsection \<open>Passes that find nothing to do send no signal\<close>









subsection \<open>The stored seen count\<close>

lemma keeps_seen_then_do:
  "keeps_seen s (snd (m s)) \<Longrightarrow> (\<And>a s'. m s = (Proceed a, s') \<Longrightarrow> keeps_seen s' (snd (f a s')))
     \<Longrightarrow> keeps_seen s (snd (then_do m f s))"
  by (rule then_do_rel [where R = keeps_seen]) (simp_all add: keeps_seen_def)

lemma orderly_keeps_seen: "orderly s s' \<Longrightarrow> keeps_seen s s'"
  by (simp add: orderly_def keeps_seen_def)

lemma publishHeight_keeps_seen: "keeps_seen s (publishHeight s)"
  by (simp add: keeps_seen_def publishHeight_def storeSeenBatchCount_def store_lastRead_def
      seen_in_step_def)

lemma idlePass_keeps_seen: "keeps_seen s (idlePass s)"
  by (simp add: keeps_seen_def idlePass_def publishHeight_def storeSeenBatchCount_def
      store_lastRead_def seen_in_step_def)

lemma scanPhase_keeps_seen: "keeps_seen s (snd (scanPhase d fmb fuel s))"
proof -
  have "keeps_seen (s\<lparr>readAnyBatches := False\<rparr>)
      (snd (then_do (scan d fmb fuel)
        (\<lambda>u s'. (Proceed (), if \<not> readAnyBatches s' then publishHeight s' else s'))
        (s\<lparr>readAnyBatches := False\<rparr>)))"
  proof (rule keeps_seen_then_do)
    show "keeps_seen (s\<lparr>readAnyBatches := False\<rparr>)
        (snd (scan d fmb fuel (s\<lparr>readAnyBatches := False\<rparr>)))"
      by (rule orderly_keeps_seen [OF scan_orderly])
  qed (use publishHeight_keeps_seen in \<open>auto simp: keeps_seen_def\<close>)
  then show ?thesis
    by (simp add: scanPhase_def keeps_seen_def seen_in_step_def)
qed

lemma pass_seen_in_step:
  "seen_in_step s \<Longrightarrow> seen_in_step (snd (pass d cfg fmb fuel s))"
proof -
  have "keeps_seen s (snd (pass d cfg fmb fuel s))"
    unfolding pass_def probeAndScan_def
  proof (rule keeps_seen_then_do)
    show "keeps_seen s (snd (pace d cfg fuel s))"
      by (rule orderly_keeps_seen [OF calm_orderly [OF pace_calm]])
  next
    fix u sp
    show "keeps_seen sp (snd (then_do (probes d cfg fmb)
        (\<lambda>u s'. if nothingToDo s' then (Proceed (), idlePass s')
                 else scanPhase d fmb fuel s') sp))"
    proof (rule keeps_seen_then_do)
      show "keeps_seen sp (snd (probes d cfg fmb sp))"
        by (rule orderly_keeps_seen [OF probes_orderly])
    qed (simp add: idlePass_keeps_seen scanPhase_keeps_seen)
  qed
  then show "seen_in_step s \<Longrightarrow> seen_in_step (snd (pass d cfg fmb fuel s))"
    by (simp add: keeps_seen_def)
qed







subsection \<open>The checked batch count\<close>







subsection \<open>What a pass applies was returned by its range queries\<close>










lemma adds_only_refl: "adds_only ms all s s"
  by (simp add: adds_only_def)
























subsection \<open>The height of a pass\<close>






























subsection \<open>The delay window\<close>


text \<open>
  With \<^verbatim>\<open>DelayBlocks\<close> = 0 the height is the object \<^verbatim>\<open>latestHeader.Number\<close>.
  When \<^verbatim>\<open>from\<close> is above the height and the probes raised a flag, the scan makes
  \<^verbatim>\<open>from\<close> that same object (\<^verbatim>\<open>from = currentHeight\<close>), and the
  \<^verbatim>\<open>from.Add(to, big.NewInt(1))\<close> that ends the iteration then writes the height too.
  With the latest header at block 20 the pass goes on to ask the sequencer inbox for the
  batches of block 21, and its height is 23 when its three iterations are used up.
\<close>

lemma in_place_advance_moves_height:
  "fst (pace batchAtHead DefaultInboxReaderConfig 3 (started 21)) = Proceed ()
   \<and> currentHeight (snd (pace batchAtHead DefaultInboxReaderConfig 3 (started 21))) = 20
   \<and> currentHeight (snd (pass batchAtHead DefaultInboxReaderConfig 10 3 (started 21))) = 23
   \<and> Ev_sequencerInbox_LookupBatchesInRange 21 21 (Inr [])
       \<in> set (trace (snd (pass batchAtHead DefaultInboxReaderConfig 10 3 (started 21))))"
  by code_simp








subsection \<open>The caught-up signal\<close>














subsection \<open>Applying a bundle\<close>


text \<open>
  Claim C2, as the specification states it: when the tracker answers the batches with
  the delayed-messages mismatch, the loop sets \<^verbatim>\<open>reorgingDelayed\<close> and surfaces no
  error. The code does otherwise when the range began at the first message block: the
  parent chain holds one batch at block 10, the first message block is 10, and the tracker
  answers the batch with the mismatch. The apply step sets \<^verbatim>\<open>reorgingDelayed\<close>, and
  the step back that follows ends the pass, and \<^verbatim>\<open>run\<close>, in the error
  \<^verbatim>\<open>can't get older messages\<close>.
\<close>

theorem mismatch_at_floor_counterexample:
  "fst (pass mismatchAtFloor DefaultInboxReaderConfig 10 5 (started 10))
     = Return (Some (errors_New ''can't get older messages''))
   \<and> Ev_tracker_AddSequencerBatches [genesisBatch]
        (Some (Wrapped ''adding batches'' delayedMessagesMismatch))
       \<in> set (trace (snd (pass mismatchAtFloor DefaultInboxReaderConfig 10 5 (started 10))))
   \<and> errors_Is (Wrapped ''adding batches'' delayedMessagesMismatch) delayedMessagesMismatch
   \<and> reorgingDelayed (snd (pass mismatchAtFloor DefaultInboxReaderConfig 10 5 (started 10)))
   \<and> fst (run mismatchAtFloor DefaultInboxReaderConfig 10 5 1 fresh)
     = Return (Some (errors_New ''can't get older messages''))"
  by code_simp


text \<open>
  Claim C2, amended. In an apply step with a bundle that is not empty, the delayed
  messages are handed to the tracker first and the batches second, in the world the
  delayed messages left, and the step ends in the world the batches left. When the tracker
  fails on the delayed messages, the step returns that error and hands no batches over.
  When the tracker answers the batches with \<^verbatim>\<open>nil\<close> or with the delayed-messages
  mismatch, the step itself returns no error; \<^verbatim>\<open>reorgingDelayed\<close> is set exactly when
  the answer was the mismatch; and with at least one batch the step publishes
  \<^verbatim>\<open>lastReadBlock = to\<close> and \<^verbatim>\<open>lastReadBatchCount\<close> = the sequence number of the last
  batch plus one, after the mismatch as well. Any other error of the tracker is returned
  before the stores. After the mismatch the loop steps back: \<^verbatim>\<open>from\<close> becomes
  \<open>max (from - 10) firstMessageBlock\<close>, and when \<^verbatim>\<open>from\<close> is not above the first
  message block the pass ends in the error \<^verbatim>\<open>can't get older messages\<close>. After
  success \<^verbatim>\<open>from\<close> becomes \<open>to + 1\<close>.
\<close>

theorem applyBundle_spec:
  "\<not> reorgingDelayed s \<and> \<not> reorgingSequencer s
     \<and> (delayedMessages \<noteq> [] \<or> sequencerBatches \<noteq> [])
     \<and> tracker_AddDelayedMessages d delayedMessages (world s) = (ra, wa)
     \<and> tracker_AddSequencerBatches d sequencerBatches wa = (rb, wb) \<longrightarrow>
   (ra = Some err \<longrightarrow>
      applyBundle d to sequencerBatches delayedMessages s
        = (Return (Some err),
           s\<lparr>world := wa, trace := trace s @ [Ev_tracker_AddDelayedMessages delayedMessages ra]\<rparr>))
   \<and> (ra = None \<longrightarrow>
      trace (snd (applyBundle d to sequencerBatches delayedMessages s))
        = trace s @ [Ev_tracker_AddDelayedMessages delayedMessages None,
                     Ev_tracker_AddSequencerBatches sequencerBatches rb]
            @ (if accepted rb \<and> sequencerBatches \<noteq> []
               then Ev_store_lastRead (big_Uint64 to) (SequenceNumber (last sequencerBatches) + 1)
                 # (if seenBatchCountStored s \<noteq> seenBatchCount s
                    then [Ev_store_lastSeenBatchCount (seenBatchCount s)] else [])
               else [])
      \<and> world (snd (applyBundle d to sequencerBatches delayedMessages s)) = wb
      \<and> (accepted rb \<longrightarrow>
           fst (applyBundle d to sequencerBatches delayedMessages s) = Proceed ()
           \<and> reorgingDelayed (snd (applyBundle d to sequencerBatches delayedMessages s))
               = (rb \<noteq> None))
      \<and> (rb = Some err \<and> \<not> errors_Is err delayedMessagesMismatch \<longrightarrow>
           fst (applyBundle d to sequencerBatches delayedMessages s) = Return (Some err)
           \<and> lastReadBlock (snd (applyBundle d to sequencerBatches delayedMessages s))
               = lastReadBlock s
           \<and> lastReadBatchCount (snd (applyBundle d to sequencerBatches delayedMessages s))
               = lastReadBatchCount s)
      \<and> (accepted rb \<and> sequencerBatches \<noteq> [] \<longrightarrow>
           lastReadBlock (snd (applyBundle d to sequencerBatches delayedMessages s))
             = big_Uint64 to
           \<and> lastReadBatchCount (snd (applyBundle d to sequencerBatches delayedMessages s))
             = SequenceNumber (last sequencerBatches) + 1)
      \<and> (rb = Some err \<and> errors_Is err delayedMessagesMismatch \<longrightarrow>
           fst (then_do (applyBundle d to sequencerBatches delayedMessages)
                  (\<lambda>u. advance d fmb to) s)
             = (if from_val s \<le> fmb then Return (Some (errors_New ''can't get older messages''))
                else Proceed ())
           \<and> (fmb < from_val s \<longrightarrow>
                from_ptr (snd (then_do (applyBundle d to sequencerBatches delayedMessages)
                  (\<lambda>u. advance d fmb to) s)) = Own (max (from_val s - 10) fmb)))
      \<and> (rb = None \<longrightarrow>
           fst (then_do (applyBundle d to sequencerBatches delayedMessages)
                  (\<lambda>u. advance d fmb to) s) = Proceed ()
           \<and> from_val (snd (then_do (applyBundle d to sequencerBatches delayedMessages)
                  (\<lambda>u. advance d fmb to) s)) = to + 1))"
proof (intro impI)
  assume a: "\<not> reorgingDelayed s \<and> \<not> reorgingSequencer s
     \<and> (delayedMessages \<noteq> [] \<or> sequencerBatches \<noteq> [])
     \<and> tracker_AddDelayedMessages d delayedMessages (world s) = (ra, wa)
     \<and> tracker_AddSequencerBatches d sequencerBatches wa = (rb, wb)"
  note defs = applyBundle_def addMessages_def then_do_def or_return_def call_result_def
    storeSeenBatchCount_def store_lastRead_def accepted_def Let_def
  have 1: "ra = Some err \<longrightarrow>
      applyBundle d to sequencerBatches delayedMessages s
        = (Return (Some err),
           s\<lparr>world := wa, trace := trace s @ [Ev_tracker_AddDelayedMessages delayedMessages ra]\<rparr>)"
    using a by (simp add: defs)
  have 2: "ra = None \<longrightarrow>
      trace (snd (applyBundle d to sequencerBatches delayedMessages s))
        = trace s @ [Ev_tracker_AddDelayedMessages delayedMessages None,
                     Ev_tracker_AddSequencerBatches sequencerBatches rb]
            @ (if accepted rb \<and> sequencerBatches \<noteq> []
               then Ev_store_lastRead (big_Uint64 to) (SequenceNumber (last sequencerBatches) + 1)
                 # (if seenBatchCountStored s \<noteq> seenBatchCount s
                    then [Ev_store_lastSeenBatchCount (seenBatchCount s)] else [])
               else [])"
    using a by (cases rb) (simp_all add: defs)
  have 3: "ra = None \<longrightarrow> world (snd (applyBundle d to sequencerBatches delayedMessages s)) = wb"
    using a by (cases rb) (simp_all add: defs)
  have 4: "ra = None \<longrightarrow> accepted rb \<longrightarrow>
           fst (applyBundle d to sequencerBatches delayedMessages s) = Proceed ()
           \<and> reorgingDelayed (snd (applyBundle d to sequencerBatches delayedMessages s))
               = (rb \<noteq> None)"
    using a by (cases rb) (simp_all add: defs)
  have 5: "ra = None \<longrightarrow> rb = Some err \<and> \<not> errors_Is err delayedMessagesMismatch \<longrightarrow>
           fst (applyBundle d to sequencerBatches delayedMessages s) = Return (Some err)
           \<and> lastReadBlock (snd (applyBundle d to sequencerBatches delayedMessages s))
               = lastReadBlock s
           \<and> lastReadBatchCount (snd (applyBundle d to sequencerBatches delayedMessages s))
               = lastReadBatchCount s"
    using a by (simp add: defs)
  have 6: "ra = None \<longrightarrow> accepted rb \<and> sequencerBatches \<noteq> [] \<longrightarrow>
           lastReadBlock (snd (applyBundle d to sequencerBatches delayedMessages s))
             = big_Uint64 to
           \<and> lastReadBatchCount (snd (applyBundle d to sequencerBatches delayedMessages s))
             = SequenceNumber (last sequencerBatches) + 1"
    using a by (cases rb) (simp_all add: defs)
  have 7: "ra = None \<longrightarrow> rb = Some err \<and> errors_Is err delayedMessagesMismatch \<longrightarrow>
           fst (then_do (applyBundle d to sequencerBatches delayedMessages)
                  (\<lambda>u. advance d fmb to) s)
             = (if from_val s \<le> fmb then Return (Some (errors_New ''can't get older messages''))
                else Proceed ())
           \<and> (fmb < from_val s \<longrightarrow>
                from_ptr (snd (then_do (applyBundle d to sequencerBatches delayedMessages)
                  (\<lambda>u. advance d fmb to) s)) = Own (max (from_val s - 10) fmb))"
    using a
    by (simp add: defs advance_def getPrevBlockForReorg_def from_val_def max_def
        split: from_ref.splits)
  have 8: "ra = None \<longrightarrow> rb = None \<longrightarrow>
           fst (then_do (applyBundle d to sequencerBatches delayedMessages)
                  (\<lambda>u. advance d fmb to) s) = Proceed ()
           \<and> from_val (snd (then_do (applyBundle d to sequencerBatches delayedMessages)
                  (\<lambda>u. advance d fmb to) s)) = to + 1"
    using a
    by (simp add: defs advance_def from_Add_def from_val_def split: from_ref.splits)
  from 1 2 3 4 5 6 7 8 show "(ra = Some err \<longrightarrow>
      applyBundle d to sequencerBatches delayedMessages s
        = (Return (Some err),
           s\<lparr>world := wa, trace := trace s @ [Ev_tracker_AddDelayedMessages delayedMessages ra]\<rparr>))
   \<and> (ra = None \<longrightarrow>
      trace (snd (applyBundle d to sequencerBatches delayedMessages s))
        = trace s @ [Ev_tracker_AddDelayedMessages delayedMessages None,
                     Ev_tracker_AddSequencerBatches sequencerBatches rb]
            @ (if accepted rb \<and> sequencerBatches \<noteq> []
               then Ev_store_lastRead (big_Uint64 to) (SequenceNumber (last sequencerBatches) + 1)
                 # (if seenBatchCountStored s \<noteq> seenBatchCount s
                    then [Ev_store_lastSeenBatchCount (seenBatchCount s)] else [])
               else [])
      \<and> world (snd (applyBundle d to sequencerBatches delayedMessages s)) = wb
      \<and> (accepted rb \<longrightarrow>
           fst (applyBundle d to sequencerBatches delayedMessages s) = Proceed ()
           \<and> reorgingDelayed (snd (applyBundle d to sequencerBatches delayedMessages s))
               = (rb \<noteq> None))
      \<and> (rb = Some err \<and> \<not> errors_Is err delayedMessagesMismatch \<longrightarrow>
           fst (applyBundle d to sequencerBatches delayedMessages s) = Return (Some err)
           \<and> lastReadBlock (snd (applyBundle d to sequencerBatches delayedMessages s))
               = lastReadBlock s
           \<and> lastReadBatchCount (snd (applyBundle d to sequencerBatches delayedMessages s))
               = lastReadBatchCount s)
      \<and> (accepted rb \<and> sequencerBatches \<noteq> [] \<longrightarrow>
           lastReadBlock (snd (applyBundle d to sequencerBatches delayedMessages s))
             = big_Uint64 to
           \<and> lastReadBatchCount (snd (applyBundle d to sequencerBatches delayedMessages s))
             = SequenceNumber (last sequencerBatches) + 1)
      \<and> (rb = Some err \<and> errors_Is err delayedMessagesMismatch \<longrightarrow>
           fst (then_do (applyBundle d to sequencerBatches delayedMessages)
                  (\<lambda>u. advance d fmb to) s)
             = (if from_val s \<le> fmb then Return (Some (errors_New ''can't get older messages''))
                else Proceed ())
           \<and> (fmb < from_val s \<longrightarrow>
                from_ptr (snd (then_do (applyBundle d to sequencerBatches delayedMessages)
                  (\<lambda>u. advance d fmb to) s)) = Own (max (from_val s - 10) fmb)))
      \<and> (rb = None \<longrightarrow>
           fst (then_do (applyBundle d to sequencerBatches delayedMessages)
                  (\<lambda>u. advance d fmb to) s) = Proceed ()
           \<and> from_val (snd (then_do (applyBundle d to sequencerBatches delayedMessages)
                  (\<lambda>u. advance d fmb to) s)) = to + 1))"
    by blast
qed

theorem applyBundle_spec_witness:
  "trace (snd (applyBundle counting 18 batchesAt7 [genesisMsg] (started 10)))
     = [Ev_tracker_AddDelayedMessages [genesisMsg] None,
        Ev_tracker_AddSequencerBatches batchesAt7 None,
        Ev_store_lastRead 18 5, Ev_store_lastSeenBatchCount 0]
   \<and> world (snd (applyBundle counting 18 batchesAt7 [genesisMsg] (started 10))) = 11
   \<and> fst (applyBundle counting 18 batchesAt7 [genesisMsg] (started 10)) = Proceed ()
   \<and> lastReadBlock (snd (applyBundle counting 18 batchesAt7 [genesisMsg] (started 10))) = 18
   \<and> lastReadBatchCount (snd (applyBundle counting 18 batchesAt7 [genesisMsg] (started 10))) = 5
   \<and> \<not> reorgingDelayed (snd (applyBundle counting 18 batchesAt7 [genesisMsg] (started 10)))
   \<and> from_val (snd (then_do (applyBundle counting 18 batchesAt7 [genesisMsg])
        (\<lambda>u. advance counting 10 18) (started 10))) = 19
   \<and> fst (applyBundle needsDelayed 40 batchesAt7 [genesisMsg] (started 30)) = Proceed ()
   \<and> reorgingDelayed (snd (applyBundle needsDelayed 40 batchesAt7 [genesisMsg] (started 30)))
   \<and> lastReadBatchCount (snd (applyBundle needsDelayed 40 batchesAt7 [genesisMsg] (started 30))) = 5
   \<and> fst (then_do (applyBundle needsDelayed 40 batchesAt7 [genesisMsg])
        (\<lambda>u. advance needsDelayed 10 40) (started 30)) = Proceed ()
   \<and> from_ptr (snd (then_do (applyBundle needsDelayed 40 batchesAt7 [genesisMsg])
        (\<lambda>u. advance needsDelayed 10 40) (started 30))) = Own 20
   \<and> fst (then_do (applyBundle needsDelayed 20 batchesAt7 [genesisMsg])
        (\<lambda>u. advance needsDelayed 10 20) (started 10))
       = Return (Some (errors_New ''can't get older messages''))
   \<and> fst (applyBundle trackerFails 20 batchesAt7 [genesisMsg] (resumedAt 10))
       = Return (Some (errors_New ''database closed''))
   \<and> lastReadBatchCount (snd (applyBundle trackerFails 20 batchesAt7 [genesisMsg] (resumedAt 10))) = 5
   \<and> applyBundle delayedFails 20 batchesAt7 [genesisMsg] (started 10)
       = (Return (Some (errors_New ''database closed'')),
          (started 10)\<lparr>world := 0, trace := trace (started 10)
             @ [Ev_tracker_AddDelayedMessages [genesisMsg] (Some (errors_New ''database closed''))]\<rparr>)"
proof -
  let ?mm = "Wrapped ''adding batches'' delayedMessagesMismatch"
  let ?db = "errors_New ''database closed''"
  have s10: "\<not> reorgingDelayed (started 10)" "\<not> reorgingSequencer (started 10)"
    "world (started 10) = 0" "trace (started 10) = []" "from_val (started 10) = 10"
    "seenBatchCountStored (started 10) = - 1" "seenBatchCount (started 10) = 0"
    by code_simp+
  have s30: "\<not> reorgingDelayed (started 30)" "\<not> reorgingSequencer (started 30)"
    "world (started 30) = 0" "from_val (started 30) = 30"
    by code_simp+
  have r10: "\<not> reorgingDelayed (resumedAt 10)" "\<not> reorgingSequencer (resumedAt 10)"
    "world (resumedAt 10) = 0" "lastReadBatchCount (resumedAt 10) = 5"
    by code_simp+
  have b: "batchesAt7 \<noteq> []" "SequenceNumber (last batchesAt7) + 1 = 5"
    "errors_Is ?mm delayedMessagesMismatch" "\<not> errors_Is ?db delayedMessagesMismatch"
    "big_Uint64 18 = 18" "big_Uint64 40 = 40"
    by code_simp+
  have pa: "\<not> reorgingDelayed (started 10) \<and> \<not> reorgingSequencer (started 10)
      \<and> ([genesisMsg] \<noteq> [] \<or> batchesAt7 \<noteq> [])
      \<and> tracker_AddDelayedMessages counting [genesisMsg] (world (started 10)) = (None, 1)
      \<and> tracker_AddSequencerBatches counting batchesAt7 1 = (None, 11)"
    using s10 by (simp add: counting_def still_def)
  note ca = applyBundle_spec [where d = counting and s = "started 10"
      and delayedMessages = "[genesisMsg]" and sequencerBatches = batchesAt7
      and ra = None and wa = 1 and rb = None and wb = 11 and to = 18 and fmb = 10,
      THEN mp, OF pa, THEN conjunct2, THEN mp, OF refl]
  have A: "trace (snd (applyBundle counting 18 batchesAt7 [genesisMsg] (started 10)))
       = [Ev_tracker_AddDelayedMessages [genesisMsg] None,
          Ev_tracker_AddSequencerBatches batchesAt7 None,
          Ev_store_lastRead 18 5, Ev_store_lastSeenBatchCount 0]
     \<and> world (snd (applyBundle counting 18 batchesAt7 [genesisMsg] (started 10))) = 11
     \<and> fst (applyBundle counting 18 batchesAt7 [genesisMsg] (started 10)) = Proceed ()
     \<and> lastReadBlock (snd (applyBundle counting 18 batchesAt7 [genesisMsg] (started 10))) = 18
     \<and> lastReadBatchCount (snd (applyBundle counting 18 batchesAt7 [genesisMsg] (started 10))) = 5
     \<and> \<not> reorgingDelayed (snd (applyBundle counting 18 batchesAt7 [genesisMsg] (started 10)))
     \<and> from_val (snd (then_do (applyBundle counting 18 batchesAt7 [genesisMsg])
          (\<lambda>u. advance counting 10 18) (started 10))) = 19"
    using ca s10 b by (simp add: accepted_def)
  have pb: "\<not> reorgingDelayed (started 30) \<and> \<not> reorgingSequencer (started 30)
      \<and> ([genesisMsg] \<noteq> [] \<or> batchesAt7 \<noteq> [])
      \<and> tracker_AddDelayedMessages needsDelayed [genesisMsg] (world (started 30)) = (None, 0)
      \<and> tracker_AddSequencerBatches needsDelayed batchesAt7 0 = (Some ?mm, 0)"
    using s30 by (simp add: needsDelayed_def still_def)
  note cb = applyBundle_spec [where d = needsDelayed and s = "started 30"
      and delayedMessages = "[genesisMsg]" and sequencerBatches = batchesAt7
      and ra = None and wa = 0 and rb = "Some ?mm" and wb = 0 and to = 40 and fmb = 10
      and err = ?mm,
      THEN mp, OF pb, THEN conjunct2, THEN mp, OF refl]
  have B: "fst (applyBundle needsDelayed 40 batchesAt7 [genesisMsg] (started 30)) = Proceed ()
     \<and> reorgingDelayed (snd (applyBundle needsDelayed 40 batchesAt7 [genesisMsg] (started 30)))
     \<and> lastReadBatchCount (snd (applyBundle needsDelayed 40 batchesAt7 [genesisMsg] (started 30))) = 5
     \<and> fst (then_do (applyBundle needsDelayed 40 batchesAt7 [genesisMsg])
          (\<lambda>u. advance needsDelayed 10 40) (started 30)) = Proceed ()
     \<and> from_ptr (snd (then_do (applyBundle needsDelayed 40 batchesAt7 [genesisMsg])
          (\<lambda>u. advance needsDelayed 10 40) (started 30))) = Own 20"
    using cb s30 b by (simp add: accepted_def)
  have pc: "\<not> reorgingDelayed (started 10) \<and> \<not> reorgingSequencer (started 10)
      \<and> ([genesisMsg] \<noteq> [] \<or> batchesAt7 \<noteq> [])
      \<and> tracker_AddDelayedMessages needsDelayed [genesisMsg] (world (started 10)) = (None, 0)
      \<and> tracker_AddSequencerBatches needsDelayed batchesAt7 0 = (Some ?mm, 0)"
    using s10 by (simp add: needsDelayed_def still_def)
  note cc = applyBundle_spec [where d = needsDelayed and s = "started 10"
      and delayedMessages = "[genesisMsg]" and sequencerBatches = batchesAt7
      and ra = None and wa = 0 and rb = "Some ?mm" and wb = 0 and to = 20 and fmb = 10
      and err = ?mm,
      THEN mp, OF pc, THEN conjunct2, THEN mp, OF refl]
  have C: "fst (then_do (applyBundle needsDelayed 20 batchesAt7 [genesisMsg])
        (\<lambda>u. advance needsDelayed 10 20) (started 10))
       = Return (Some (errors_New ''can't get older messages''))"
    using cc s10 b by simp
  have pd: "\<not> reorgingDelayed (resumedAt 10) \<and> \<not> reorgingSequencer (resumedAt 10)
      \<and> ([genesisMsg] \<noteq> [] \<or> batchesAt7 \<noteq> [])
      \<and> tracker_AddDelayedMessages trackerFails [genesisMsg] (world (resumedAt 10)) = (None, 0)
      \<and> tracker_AddSequencerBatches trackerFails batchesAt7 0 = (Some ?db, 0)"
    using r10 by (simp add: trackerFails_def still_def)
  note cd = applyBundle_spec [where d = trackerFails and s = "resumedAt 10"
      and delayedMessages = "[genesisMsg]" and sequencerBatches = batchesAt7
      and ra = None and wa = 0 and rb = "Some ?db" and wb = 0 and to = 20 and fmb = 10
      and err = ?db,
      THEN mp, OF pd, THEN conjunct2, THEN mp, OF refl]
  have D: "fst (applyBundle trackerFails 20 batchesAt7 [genesisMsg] (resumedAt 10))
       = Return (Some ?db)
     \<and> lastReadBatchCount (snd (applyBundle trackerFails 20 batchesAt7 [genesisMsg] (resumedAt 10))) = 5"
    using cd r10 b by simp
  have pe: "\<not> reorgingDelayed (started 10) \<and> \<not> reorgingSequencer (started 10)
      \<and> ([genesisMsg] \<noteq> [] \<or> batchesAt7 \<noteq> [])
      \<and> tracker_AddDelayedMessages delayedFails [genesisMsg] (world (started 10)) = (Some ?db, 0)
      \<and> tracker_AddSequencerBatches delayedFails batchesAt7 0 = (None, 0)"
    using s10 by (simp add: delayedFails_def still_def)
  note ce = applyBundle_spec [where d = delayedFails and s = "started 10"
      and delayedMessages = "[genesisMsg]" and sequencerBatches = batchesAt7
      and ra = "Some ?db" and wa = 0 and rb = None and wb = 0 and to = 20 and fmb = 10
      and err = ?db,
      THEN mp, OF pe, THEN conjunct1, THEN mp, OF refl]
  from A B C D ce show ?thesis
    by simp
qed


subsection \<open>The published block of passes that do not step back\<close>







lemma inert_refl: "inert s s"
  by (simp add: inert_def)




























subsection \<open>The batch count a pass publishes\<close>



















subsection \<open>Stores of the seen count follow stores of the pair\<close>























subsection \<open>Steady state\<close>






text \<open>
  The loop that drops the batches the tracker already has compares the accumulator the
  tracker holds after batch \<open>n\<close> (\<^verbatim>\<open>GetBatchAcc(batch.SequenceNumber)\<close>) with the
  accumulator before batch \<open>n\<close> (\<^verbatim>\<open>batch.BeforeInboxAcc\<close>). For a batch the tracker
  holds the two differ, so the batch is not dropped. A call of \<^verbatim>\<open>run\<close> starts at the
  first message block (or at the block of the last delayed message), which can be below
  the block an earlier call had published; it then hands the batches the tracker holds to
  the tracker again and publishes their range. With the pair (140, 5) published, six
  batches on the parent chain and the first five in the tracker, a pass that raises no
  reorg flag publishes (110, 2) and then (211, 6).
\<close>

lemma held_batches_republished:
  "getNextBlockToRead heldPrefix 10 readTo140 = (Inr 10, readTo140\<lparr>trace := [Ev_tracker_GetDelayedCount]\<rparr>)
   \<and> fst (run heldPrefix DefaultInboxReaderConfig 10 5 1 readTo140) = OutOfFuel
   \<and> no_reorg heldPrefix DefaultInboxReaderConfig 10 5
        (readTo140\<lparr>trace := [Ev_tracker_GetDelayedCount], from_ptr := Own 10,
           seenBatchCountStored := - 1\<rparr>)
   \<and> stored_blocks (trace (snd (run heldPrefix DefaultInboxReaderConfig 10 5 1 readTo140)))
       = [110, 211]
   \<and> remdups (observable (140, 5, 5)
        (trace (snd (run heldPrefix DefaultInboxReaderConfig 10 5 1 readTo140))))
       = [(140, 5, 5), (110, 2, 5), (110, 2, 6), (211, 6, 6)]"
  by code_simp







end
